theory Spec2Isabelle
  imports Complex_Main "HOL-Library.Word"
begin

section \<open>JavaScript values\<close>

text \<open>
  A JavaScript number is modelled as an exact rational or one of the three special
  values of IEEE 754 that the handlers can produce (\<open>0/0\<close>, \<open>x/0\<close>, \<open>parseFloat\<close> of
  something that is not a number).  Rounding to binary64, overflow and the sign of zero
  are not modelled: every finite result is the exact one.
\<close>

datatype jsnum = Fin rat | PosInf | NegInf | NaN

text \<open>The values a field of a JSON request body can have, as the handlers test them.\<close>

datatype jsval = JUndefined | JNull | JBool bool | JNum rat | JStr string | JObject

text \<open>\<open>!v\<close> is true for the falsy values.\<close>

fun falsy :: "jsval \<Rightarrow> bool" where
  "falsy JUndefined = True"
| "falsy JNull = True"
| "falsy (JBool b) = (\<not> b)"
| "falsy (JNum r) = (r = 0)"
| "falsy (JStr s) = (s = [])"
| "falsy JObject = False"

text \<open>\<open>!x\<close> on a number: zero and NaN are falsy.\<close>

fun num_falsy :: "jsnum \<Rightarrow> bool" where
  "num_falsy (Fin r) = (r = 0)"
| "num_falsy NaN = True"
| "num_falsy _ = False"

fun js_neg :: "jsnum \<Rightarrow> jsnum" where
  "js_neg (Fin r) = Fin (- r)"
| "js_neg PosInf = NegInf"
| "js_neg NegInf = PosInf"
| "js_neg NaN = NaN"

fun js_add :: "jsnum \<Rightarrow> jsnum \<Rightarrow> jsnum" where
  "js_add NaN _ = NaN"
| "js_add _ NaN = NaN"
| "js_add (Fin a) (Fin b) = Fin (a + b)"
| "js_add PosInf NegInf = NaN"
| "js_add NegInf PosInf = NaN"
| "js_add PosInf _ = PosInf"
| "js_add NegInf _ = NegInf"
| "js_add _ PosInf = PosInf"
| "js_add _ NegInf = NegInf"

definition js_sub :: "jsnum \<Rightarrow> jsnum \<Rightarrow> jsnum" where
  "js_sub a b = js_add a (js_neg b)"

text \<open>The sign of an infinite product or quotient: \<open>True\<close> is positive.\<close>

definition signed_inf :: "bool \<Rightarrow> jsnum" where
  "signed_inf pos = (if pos then PosInf else NegInf)"

fun js_mul :: "jsnum \<Rightarrow> jsnum \<Rightarrow> jsnum" where
  "js_mul NaN _ = NaN"
| "js_mul _ NaN = NaN"
| "js_mul (Fin a) (Fin b) = Fin (a * b)"
| "js_mul (Fin a) PosInf = (if a = 0 then NaN else signed_inf (0 < a))"
| "js_mul (Fin a) NegInf = (if a = 0 then NaN else signed_inf (a < 0))"
| "js_mul PosInf (Fin b) = (if b = 0 then NaN else signed_inf (0 < b))"
| "js_mul NegInf (Fin b) = (if b = 0 then NaN else signed_inf (b < 0))"
| "js_mul PosInf PosInf = PosInf"
| "js_mul NegInf NegInf = PosInf"
| "js_mul PosInf NegInf = NegInf"
| "js_mul NegInf PosInf = NegInf"

fun js_div :: "jsnum \<Rightarrow> jsnum \<Rightarrow> jsnum" where
  "js_div NaN _ = NaN"
| "js_div _ NaN = NaN"
| "js_div (Fin a) (Fin b) =
     (if b = 0 then (if a = 0 then NaN else signed_inf (0 < a)) else Fin (a / b))"
| "js_div (Fin a) _ = Fin 0"
| "js_div PosInf (Fin b) = signed_inf (0 \<le> b)"
| "js_div NegInf (Fin b) = signed_inf (b < 0)"
| "js_div _ _ = NaN"

text \<open>\<open>a < b\<close> and \<open>a > b\<close>: false as soon as one side is NaN.\<close>

fun js_lt :: "jsnum \<Rightarrow> jsnum \<Rightarrow> bool" where
  "js_lt NaN _ = False"
| "js_lt _ NaN = False"
| "js_lt (Fin a) (Fin b) = (a < b)"
| "js_lt _ NegInf = False"
| "js_lt PosInf _ = False"
| "js_lt NegInf _ = True"
| "js_lt _ PosInf = True"

definition js_gt :: "jsnum \<Rightarrow> jsnum \<Rightarrow> bool" where
  "js_gt a b = js_lt b a"

text \<open>\<open>Math.min(a, b)\<close>: NaN if either argument is.\<close>

fun js_min :: "jsnum \<Rightarrow> jsnum \<Rightarrow> jsnum" where
  "js_min NaN _ = NaN"
| "js_min _ NaN = NaN"
| "js_min a b = (if js_lt b a then b else a)"

text \<open>
  \<open>parseFloat(x.toFixed(2))\<close>.  \<open>toFixed\<close> prints NaN and the infinities by name and
  \<open>parseFloat\<close> reads them back; a magnitude of at least \<open>10^21\<close> is printed as it is;
  otherwise the magnitude is rounded to the nearest hundredth, the larger one on a tie,
  and the sign is put back.
\<close>

definition round_cents :: "rat \<Rightarrow> rat" where
  "round_cents x = of_int \<lfloor>x * 100 + 1 / 2\<rfloor> / 100"

definition toFixed2_rat :: "rat \<Rightarrow> rat" where
  "toFixed2_rat x =
     (if x < 0
      then (if 10 ^ 21 \<le> - x then x else - round_cents (- x))
      else (if 10 ^ 21 \<le> x then x else round_cents x))"

fun toFixed2 :: "jsnum \<Rightarrow> jsnum" where
  "toFixed2 (Fin r) = Fin (toFixed2_rat r)"
| "toFixed2 x = x"

subsection \<open>Strings\<close>

text \<open>
  \<open>toUpperCase\<close> and \<open>toLowerCase\<close> on the ASCII letters; every other character is
  left as it is.
\<close>

definition upper_char :: "char \<Rightarrow> char" where
  "upper_char c =
     (let n = (of_char c :: nat) in if 97 \<le> n \<and> n \<le> 122 then char_of (n - 32) else c)"

definition lower_char :: "char \<Rightarrow> char" where
  "lower_char c =
     (let n = (of_char c :: nat) in if 65 \<le> n \<and> n \<le> 90 then char_of (n + 32) else c)"

definition toUpperCase :: "string \<Rightarrow> string" where
  "toUpperCase s = map upper_char s"

definition toLowerCase :: "string \<Rightarrow> string" where
  "toLowerCase s = map lower_char s"

subsection \<open>Requests, responses, failures\<close>

text \<open>
  A response is an error (status and message) or a payload with its status.  Every
  \<open>await\<close> of a handler is a numbered step that may throw; \<open>fails k\<close> says that step
  \<open>k\<close> of this request does.  A step that throws changes nothing in the database, and
  what earlier steps wrote stays written: no handler opens a transaction.
\<close>

datatype 'a response = Failure nat string | Success nat 'a

fun status_of :: "'a response \<Rightarrow> nat" where
  "status_of (Failure s _) = s"
| "status_of (Success s _) = s"

section \<open>The database\<close>

text \<open>
  The rows of the tables, with the columns the handlers read and write.  A numeric
  column holds the number that \<open>parseFloat\<close> reads from it, a timestamp is a number of
  seconds, a row id is a natural number.  The tables are lists, in the order in which a
  query returns their rows.
\<close>

record coupon =
  coupon_id :: nat
  code :: string
  discount_type :: string
  discount_value :: jsnum
  max_uses :: "int option"
  used_count :: int
  expires_at :: "int option"
  is_active :: bool

record booking =
  booking_id :: nat
  customer_name :: string
  customer_email :: string
  customer_phone :: string
  vehicle_type :: string
  package_id :: "nat option"
  service_id :: "nat option"
  booking_date :: string
  booking_time :: string
  address :: string
  notes_col :: string
  total_amount :: jsnum
  deposit_amount :: jsnum
  status :: string
  payment_token :: string
  coupon_code :: "string option"
  coupon_discount :: "jsnum option"
  updated_at :: int

record service =
  svc_id :: nat
  svc_name :: string
  svc_sedan_price :: jsnum
  svc_suv_price :: jsnum
  svc_truck_price :: jsnum

record package =
  pkg_id :: nat
  pkg_name :: string
  base_price :: jsnum
  vehicle_multipliers :: "(string \<times> jsnum) list"

record addon =
  addon_id :: nat
  addon_name :: string
  addon_sedan_price :: jsnum
  addon_suv_price :: jsnum
  addon_commercial_price :: jsnum
  addon_is_active :: bool

record booking_addon =
  ba_booking_id :: nat
  ba_addon_id :: nat
  price_charged :: jsnum

record review =
  author_name :: string
  author_photo_url :: "string option"
  rating :: jsnum
  review_text :: string
  relative_time :: string
  publish_time :: "string option"
  google_maps_uri :: "string option"

record reviews_data =
  rd_overall_rating :: "jsnum option"
  rd_total_reviews :: int
  rd_business_name :: string
  rd_reviews :: "review list"

record cache_row =
  place_id :: string
  overall_rating :: "jsnum option"
  total_reviews :: int
  reviews_json :: reviews_data
  cached_at :: int

record admin_user =
  user_id :: nat
  email :: string
  password_hash :: string
  user_name :: string
  role :: string
  user_is_active :: bool
  totp_enabled :: bool
  totp_secret :: "string option"

record refresh_token =
  rt_user_id :: nat
  token_hash :: string
  rt_expires_at :: int
  device_info :: string
  is_revoked :: bool

record database =
  coupons :: "coupon list"
  bookings :: "booking list"
  services :: "service list"
  packages :: "package list"
  addons :: "addon list"
  settings :: "(string \<times> jsnum) list"
  booking_addons :: "booking_addon list"
  google_reviews_cache :: "cache_row list"
  admin_users :: "admin_user list"
  refresh_tokens :: "refresh_token list"

text \<open>The id a serial column gives the next inserted row: one past the largest in use.\<close>

definition fresh_id :: "nat list \<Rightarrow> nat" where
  "fresh_id ids = Suc (fold max ids 0)"

section \<open>Coupons (backend/routes/coupons.js)\<close>

text \<open>
  The query of validate and apply:
  \<open>code = $1 AND is_active = true AND (expires_at IS NULL OR expires_at > NOW())
  AND (max_uses IS NULL OR used_count < max_uses)\<close>.
\<close>

definition coupon_usable :: "int \<Rightarrow> string \<Rightarrow> coupon \<Rightarrow> bool" where
  "coupon_usable now c r =
     (code r = c \<and> is_active r \<and>
      (case expires_at r of None \<Rightarrow> True | Some e \<Rightarrow> now < e) \<and>
      (case max_uses r of None \<Rightarrow> True | Some m \<Rightarrow> used_count r < m))"

definition select_coupon :: "coupon list \<Rightarrow> int \<Rightarrow> string \<Rightarrow> coupon list" where
  "select_coupon cs now c = filter (coupon_usable now c) cs"

text \<open>The discount both handlers compute, then cap with \<open>Math.min\<close>.\<close>

definition coupon_discount_of :: "coupon \<Rightarrow> jsnum \<Rightarrow> jsnum" where
  "coupon_discount_of r amount =
     js_min
       (if discount_type r = ''percent''
        then js_div (js_mul amount (discount_value r)) (Fin 100)
        else discount_value r)
       amount"

record validate_result =
  v_valid :: bool
  v_code :: string
  v_discountType :: string
  v_discountValue :: jsnum
  v_discountAmount :: jsnum

text \<open>
  POST /api/coupons/validate.  The body's \<open>subtotal\<close> enters as the number
  \<open>parseFloat(subtotal)\<close>.  Step 0 is the query.  A code that is truthy and not a string
  has no \<open>toUpperCase\<close>: the TypeError is caught and answered with 500.
\<close>

definition validate_coupon ::
  "database \<Rightarrow> int \<Rightarrow> (nat \<Rightarrow> bool) \<Rightarrow> jsval \<Rightarrow> jsnum \<Rightarrow> validate_result response" where
  "validate_coupon db now fails cd subtotal =
     (if falsy cd then Failure 400 ''Coupon code required''
      else case cd of
        JStr s \<Rightarrow>
          (if fails 0 then Failure 500 ''Failed to validate coupon''
           else case select_coupon (coupons db) now (toUpperCase s) of
             [] \<Rightarrow> Failure 404 ''Invalid or expired coupon code''
           | r # _ \<Rightarrow>
               Success 200
                 \<lparr>v_valid = True, v_code = code r, v_discountType = discount_type r,
                  v_discountValue = discount_value r,
                  v_discountAmount = toFixed2 (coupon_discount_of r subtotal)\<rparr>)
      | _ \<Rightarrow> Failure 500 ''Failed to validate coupon'')"

text \<open>
  POST /api/coupons/apply.  The body's \<open>bookingId\<close> is a row id or absent; \<open>0\<close> is
  falsy.  Steps: 0 the coupon query, 1 the booking query, 2 the UPDATE of the booking,
  3 the UPDATE of the coupon.  The handler's two writes are values, so that the list of
  writes a request has made can be read off its result.
\<close>

datatype db_write =
    UpdateBookingCoupon nat string jsnum jsnum jsnum
  | IncrementUsedCount nat

fun apply_write :: "db_write \<Rightarrow> database \<Rightarrow> database" where
  "apply_write (UpdateBookingCoupon bid c d t dep) db =
     db\<lparr>bookings :=
          map (\<lambda>b. if booking_id b = bid
                    then b\<lparr>coupon_code := Some c, coupon_discount := Some d,
                           total_amount := t, deposit_amount := dep\<rparr>
                    else b)
            (bookings db)\<rparr>"
| "apply_write (IncrementUsedCount cid) db =
     db\<lparr>coupons :=
          map (\<lambda>r. if coupon_id r = cid then r\<lparr>used_count := used_count r + 1\<rparr> else r)
            (coupons db)\<rparr>"

record apply_result =
  r_discountApplied :: jsnum
  r_newTotal :: jsnum
  r_newDeposit :: jsnum

text \<open>
  The discount, the new total and the new deposit that apply computes for a booking.
  The quotient and the product are exact here and rounded to binary64 in the code, so
  only what does not depend on that rounding is proved of them below.
\<close>

definition apply_amounts :: "coupon \<Rightarrow> booking \<Rightarrow> jsnum \<times> jsnum \<times> jsnum" where
  "apply_amounts r b =
     (let discount = coupon_discount_of r (total_amount b);
          depositPercentage = js_div (deposit_amount b) (total_amount b);
          newTotal = js_sub (total_amount b) discount;
          newDeposit = js_mul newTotal depositPercentage
      in (discount, newTotal, newDeposit))"

definition apply_coupon ::
  "database \<Rightarrow> int \<Rightarrow> (nat \<Rightarrow> bool) \<Rightarrow> jsval \<Rightarrow> nat option \<Rightarrow>
     database \<times> db_write list \<times> apply_result response" where
  "apply_coupon db now fails cd bookingId =
     (if falsy cd \<or> bookingId = None \<or> bookingId = Some 0
      then (db, [], Failure 400 ''Coupon code and booking ID required'')
      else case cd of
        JStr s \<Rightarrow>
          (if fails 0 then (db, [], Failure 500 ''Failed to apply coupon'')
           else case select_coupon (coupons db) now (toUpperCase s) of
             [] \<Rightarrow> (db, [], Failure 404 ''Invalid or expired coupon code'')
           | r # _ \<Rightarrow>
              (if fails 1 then (db, [], Failure 500 ''Failed to apply coupon'')
               else case filter (\<lambda>b. Some (booking_id b) = bookingId) (bookings db) of
                 [] \<Rightarrow> (db, [], Failure 404 ''Booking not found'')
               | b # _ \<Rightarrow>
                  (case apply_amounts r b of
                     (discount, newTotal, newDeposit) \<Rightarrow>
                       (let w1 = UpdateBookingCoupon (booking_id b) (code r)
                                   discount newTotal newDeposit;
                            w2 = IncrementUsedCount (coupon_id r)
                        in if fails 2 then (db, [], Failure 500 ''Failed to apply coupon'')
                           else if fails 3
                           then (apply_write w1 db, [w1],
                                 Failure 500 ''Failed to apply coupon'')
                           else (apply_write w2 (apply_write w1 db), [w1, w2],
                                 Success 200
                                   \<lparr>r_discountApplied = toFixed2 discount,
                                    r_newTotal = toFixed2 newTotal,
                                    r_newDeposit = toFixed2 newDeposit\<rparr>)))))
      | _ \<Rightarrow> (db, [], Failure 500 ''Failed to apply coupon''))"




section \<open>Bookings (the bookings router, unnamed/part_000)\<close>

text \<open>
  \<open>crypto.randomBytes(n)\<close> reads \<open>n\<close> bytes of the entropy source, which is a
  parameter of the model; \<open>toString('hex')\<close> prints each byte as two lower-case
  hexadecimal digits.
\<close>

definition randomBytes :: "(nat \<Rightarrow> 8 word) \<Rightarrow> nat \<Rightarrow> 8 word list" where
  "randomBytes src n = map src [0..<n]"

definition hex_digit :: "nat \<Rightarrow> char" where
  "hex_digit n = ''0123456789abcdef'' ! (n mod 16)"

definition hex_of_byte :: "8 word \<Rightarrow> string" where
  "hex_of_byte b = [hex_digit (unat b div 16), hex_digit (unat b mod 16)]"

definition toString_hex :: "8 word list \<Rightarrow> string" where
  "toString_hex bs = concat (map hex_of_byte bs)"

definition generatePaymentToken :: "(nat \<Rightarrow> 8 word) \<Rightarrow> string" where
  "generatePaymentToken src = toString_hex (randomBytes src 6)"

text \<open>A row id printed in decimal, as a template string does.\<close>

fun decimal :: "nat \<Rightarrow> string" where
  "decimal n =
     (if n < 10 then [''0123456789'' ! n]
      else decimal (n div 10) @ [''0123456789'' ! (n mod 10)])"

text \<open>
  The body of POST /api/bookings, after the validation middleware.  An id is a row id or
  absent, and \<open>0\<close> is falsy; \<open>addonIds\<close> is \<open>None\<close> when the field is absent or not an
  array.
\<close>

record booking_request =
  customerName :: string
  customerEmail :: string
  customerPhone :: string
  vehicleType :: string
  packageId :: "nat option"
  serviceId :: "nat option"
  addonIds :: "nat list option"
  bookingDate :: string
  bookingTime :: string
  req_address :: string
  req_notes :: string

text \<open>
  The environment variables the handlers read.  \<open>DEPOSIT_PERCENTAGE\<close> is \<open>None\<close> when
  the variable is unset or empty and otherwise the number \<open>parseFloat\<close> reads from it;
  \<open>GOOGLE_REVIEWS_CACHE_HOURS\<close> is \<open>None\<close> when \<open>parseInt\<close> yields NaN.
\<close>

record environment =
  DEPOSIT_PERCENTAGE :: "jsnum option"
  APP_URL :: "string option"
  GOOGLE_MAPS_API_KEY :: "string option"
  GOOGLE_PLACE_ID :: "string option"
  GOOGLE_REVIEWS_CACHE_HOURS :: "int option"
  ADMIN_EMAIL :: "string option"
  ADMIN_PASSWORD :: "string option"

text \<open>A string of the environment with \<open>|| default\<close>: unset and empty give the default.\<close>

fun or_default :: "string option \<Rightarrow> string \<Rightarrow> string" where
  "or_default None d = d"
| "or_default (Some s) d = (if s = [] then d else s)"

text \<open>The service's price column for a vehicle type; commercial uses \<open>truck_price\<close>.\<close>

definition service_price :: "service \<Rightarrow> string \<Rightarrow> jsnum" where
  "service_price s vt =
     (let vehicle = toLowerCase vt
      in if vehicle = ''sedan'' then svc_sedan_price s
         else if vehicle = ''suv'' then svc_suv_price s
         else svc_truck_price s)"

text \<open>
  \<open>vehicle_multipliers[vehicleType.toLowerCase()] || 1.0\<close>: a missing key, a zero and a
  NaN give \<open>1.0\<close>.
\<close>

definition vehicle_multiplier :: "package \<Rightarrow> string \<Rightarrow> jsnum" where
  "vehicle_multiplier p vt =
     (case map_of (vehicle_multipliers p) (toLowerCase vt) of
        None \<Rightarrow> Fin 1
      | Some m \<Rightarrow> if num_falsy m then Fin 1 else m)"

definition package_price :: "package \<Rightarrow> string \<Rightarrow> jsnum" where
  "package_price p vt = js_mul (base_price p) (vehicle_multiplier p vt)"

text \<open>The add-on's price column for a vehicle type.\<close>

definition addon_price :: "addon \<Rightarrow> string \<Rightarrow> jsnum" where
  "addon_price a vt =
     (let vehicle = toLowerCase vt
      in if vehicle = ''commercial'' then addon_commercial_price a
         else if vehicle = ''suv'' then addon_suv_price a
         else addon_sedan_price a)"

record addon_detail =
  ad_id :: nat
  ad_name :: string
  ad_price :: jsnum

text \<open>
  \<open>SELECT id, name, <column> as price FROM addons WHERE id IN (...) AND is_active = true\<close>,
  issued only for a non-empty array of ids.
\<close>

definition select_addons :: "addon list \<Rightarrow> nat list option \<Rightarrow> string \<Rightarrow> addon_detail list" where
  "select_addons as ids vt =
     (case ids of
        None \<Rightarrow> []
      | Some is \<Rightarrow>
          map (\<lambda>a. \<lparr>ad_id = addon_id a, ad_name = addon_name a, ad_price = addon_price a vt\<rparr>)
            (filter (\<lambda>a. addon_id a \<in> set is \<and> addon_is_active a) as))"

text \<open>The loop \<open>addonTotal += parseFloat(addon.price)\<close>, from \<open>addonTotal = 0\<close>.\<close>

definition addon_total :: "addon_detail list \<Rightarrow> jsnum" where
  "addon_total ds = foldl (\<lambda>acc d. js_add acc (ad_price d)) (Fin 0) ds"

text \<open>
  The deposit percentage: the settings row, else the environment variable, else 0.25.
\<close>

definition deposit_percentage :: "database \<Rightarrow> environment \<Rightarrow> jsnum" where
  "deposit_percentage db env =
     (case filter (\<lambda>kv. fst kv = ''deposit_percentage'') (settings db) of
        kv # _ \<Rightarrow> snd kv
      | [] \<Rightarrow> (case DEPOSIT_PERCENTAGE env of None \<Rightarrow> Fin (1 / 4) | Some v \<Rightarrow> v))"

record notification =
  n_type :: string
  n_bookingId :: nat
  n_serviceName :: string
  n_totalAmount :: jsnum
  n_depositAmount :: jsnum
  n_addons :: "addon_detail list"

record booking_created =
  bc_booking :: booking
  bc_totalAmount :: jsnum
  bc_depositAmount :: jsnum
  bc_addons :: "addon_detail list"
  bc_paymentLink :: string

text \<open>
  The price lookup of POST /api/bookings: the service when \<open>serviceId\<close> is truthy, else
  the package when \<open>packageId\<close> is, else 400.  The result is the name and the price.
\<close>

definition lookup_price ::
  "database \<Rightarrow> booking_request \<Rightarrow> (nat \<times> string) + (string \<times> jsnum)" where
  "lookup_price db rq =
     (if serviceId rq \<noteq> None \<and> serviceId rq \<noteq> Some 0
      then (case filter (\<lambda>s. Some (svc_id s) = serviceId rq) (services db) of
              [] \<Rightarrow> Inl (404, ''Service not found'')
            | s # _ \<Rightarrow> Inr (svc_name s, service_price s (vehicleType rq)))
      else if packageId rq \<noteq> None \<and> packageId rq \<noteq> Some 0
      then (case filter (\<lambda>p. Some (pkg_id p) = packageId rq) (packages db) of
              [] \<Rightarrow> Inl (404, ''Package not found'')
            | p # _ \<Rightarrow> Inr (pkg_name p, package_price p (vehicleType rq)))
      else Inl (400, ''Service or package ID required''))"

text \<open>\<open>x || null\<close> on an id.\<close>

fun or_null :: "nat option \<Rightarrow> nat option" where
  "or_null (Some 0) = None"
| "or_null x = x"

text \<open>
  POST /api/bookings.  Steps: 0 the service or package query, 1 the add-on query (when
  there are ids), 2 the settings query, 3 the INSERT of the booking, \<open>4 + i\<close> the INSERT
  of the \<open>i\<close>-th add-on row (all issued together under \<open>Promise.all\<close>, so each one that
  does not fail is written), then the notification.  The result is the database, the
  notification sent if any, and the response.
  Modelled from the spec: schema.sql is not among the sources; a new booking row has no
  coupon and its \<open>updated_at\<close> is the time of the INSERT.
\<close>

definition booking_row ::
  "database \<Rightarrow> int \<Rightarrow> booking_request \<Rightarrow> jsnum \<Rightarrow> jsnum \<Rightarrow> string \<Rightarrow> booking" where
  "booking_row db now rq totalAmount depositAmount paymentToken =
     \<lparr>booking_id = fresh_id (map booking_id (bookings db)),
      customer_name = customerName rq,
      customer_email = customerEmail rq,
      customer_phone = customerPhone rq,
      vehicle_type = vehicleType rq,
      package_id = or_null (packageId rq),
      service_id = or_null (serviceId rq),
      booking_date = bookingDate rq,
      booking_time = bookingTime rq,
      address = req_address rq,
      notes_col = req_notes rq,
      total_amount = totalAmount,
      deposit_amount = depositAmount,
      status = ''pending'',
      payment_token = paymentToken,
      coupon_code = None, coupon_discount = None,
      updated_at = now\<rparr>"

definition addon_rows :: "(nat \<Rightarrow> bool) \<Rightarrow> nat \<Rightarrow> addon_detail list \<Rightarrow> booking_addon list" where
  "addon_rows fails bid addonDetails =
     map (\<lambda>d. \<lparr>ba_booking_id = bid, ba_addon_id = ad_id d, price_charged = ad_price d\<rparr>)
       (map snd (filter (\<lambda>id. \<not> fails (4 + fst id))
                   (zip [0..<length addonDetails] addonDetails)))"

text \<open>The second half of the handler: the INSERTs, the notification, the response.\<close>

definition store_booking ::
  "database \<Rightarrow> environment \<Rightarrow> (nat \<Rightarrow> bool) \<Rightarrow> booking \<Rightarrow> string \<Rightarrow> addon_detail list \<Rightarrow>
     database \<times> notification option \<times> booking_created response" where
  "store_booking db env fails row serviceName addonDetails =
     (if fails 3 then (db, None, Failure 500 ''Failed to create booking'')
      else
       (let n = length addonDetails;
            db2 = db\<lparr>bookings := bookings db @ [row],
                     booking_addons :=
                       booking_addons db @ addon_rows fails (booking_id row) addonDetails\<rparr>
        in if list_ex (\<lambda>i. fails (4 + i)) [0..<n] \<or> fails (4 + n)
           then (db2, None, Failure 500 ''Failed to create booking'')
           else (db2,
                 Some \<lparr>n_type = ''new_booking'', n_bookingId = booking_id row,
                       n_serviceName = serviceName, n_totalAmount = total_amount row,
                       n_depositAmount = deposit_amount row, n_addons = addonDetails\<rparr>,
                 Success 201
                   \<lparr>bc_booking = row,
                    bc_totalAmount = toFixed2 (total_amount row),
                    bc_depositAmount = toFixed2 (deposit_amount row),
                    bc_addons = addonDetails,
                    bc_paymentLink =
                      or_default (APP_URL env) ''https://showersautodetail.com''
                      @ ''/pay?id='' @ decimal (booking_id row)
                      @ ''&token='' @ payment_token row\<rparr>)))"

definition create_booking ::
  "database \<Rightarrow> environment \<Rightarrow> int \<Rightarrow> (nat \<Rightarrow> bool) \<Rightarrow> (nat \<Rightarrow> 8 word) \<Rightarrow> booking_request \<Rightarrow>
     database \<times> notification option \<times> booking_created response" where
  "create_booking db env now fails src rq =
     (let err = Failure 500 ''Failed to create booking'';
          priced = (serviceId rq \<noteq> None \<and> serviceId rq \<noteq> Some 0) \<or>
                   (packageId rq \<noteq> None \<and> packageId rq \<noteq> Some 0);
          ids = (case addonIds rq of None \<Rightarrow> None | Some is \<Rightarrow> if is = [] then None else Some is)
      in if priced \<and> fails 0 then (db, None, err)
         else case lookup_price db rq of
           Inl (st, msg) \<Rightarrow> (db, None, Failure st msg)
         | Inr (serviceName, price) \<Rightarrow>
            (if ids \<noteq> None \<and> fails 1 then (db, None, err)
             else
              (let addonDetails = select_addons (addons db) ids (vehicleType rq);
                   totalAmount = js_add price (addon_total addonDetails)
               in if fails 2 then (db, None, err)
                  else
                   (let depositAmount = js_mul totalAmount (deposit_percentage db env);
                        paymentToken = generatePaymentToken src
                    in store_booking db env fails
                         (booking_row db now rq totalAmount depositAmount paymentToken)
                         serviceName addonDetails))))"

text \<open>\<open>validStatuses.includes(status)\<close>: only a string of the list is included.\<close>

definition validStatuses :: "string list" where
  "validStatuses = [''pending'', ''confirmed'', ''in_progress'', ''completed'', ''cancelled'']"

fun includes_status :: "jsval \<Rightarrow> bool" where
  "includes_status (JStr s) = (s \<in> set validStatuses)"
| "includes_status _ = False"

text \<open>
  PATCH /api/bookings/:id/status, after the authentication middleware.  Step 0 is the
  UPDATE.
\<close>

definition update_booking_status ::
  "database \<Rightarrow> int \<Rightarrow> (nat \<Rightarrow> bool) \<Rightarrow> nat \<Rightarrow> jsval \<Rightarrow> database \<times> booking response" where
  "update_booking_status db now fails bid st =
     (if \<not> includes_status st then (db, Failure 400 ''Invalid status'')
      else case st of
        JStr s \<Rightarrow>
          (if fails 0 then (db, Failure 500 ''Failed to update booking'')
           else
            (let bs = map (\<lambda>b. if booking_id b = bid
                                then b\<lparr>status := s, updated_at := now\<rparr> else b)
                        (bookings db)
             in case filter (\<lambda>b. booking_id b = bid) bs of
                  [] \<Rightarrow> (db, Failure 404 ''Booking not found'')
                | b # _ \<Rightarrow> (db\<lparr>bookings := bs\<rparr>, Success 200 b)))
      | _ \<Rightarrow> (db, Failure 500 ''Failed to update booking''))"

text \<open>
  PUT /api/bookings/:id, after the authentication and id validation middleware.  A field
  of the body is \<open>None\<close> when it is \<open>undefined\<close>; the status is tested as it comes.  The
  handler collects one assignment per field that is present.
\<close>

record booking_update =
  u_customerName :: "string option"
  u_customerEmail :: "string option"
  u_customerPhone :: "string option"
  u_vehicleType :: "string option"
  u_bookingDate :: "string option"
  u_bookingTime :: "string option"
  u_address :: "string option"
  u_notes :: "string option"
  u_totalAmount :: "jsnum option"
  u_depositAmount :: "jsnum option"
  u_status :: jsval

datatype assignment =
    SetCustomerName string | SetCustomerEmail string | SetCustomerPhone string
  | SetVehicleType string | SetBookingDate string | SetBookingTime string
  | SetAddress string | SetNotes string | SetTotalAmount jsnum | SetDepositAmount jsnum
  | SetStatus string

fun assign :: "booking \<Rightarrow> assignment \<Rightarrow> booking" where
  "assign b (SetCustomerName v) = b\<lparr>customer_name := v\<rparr>"
| "assign b (SetCustomerEmail v) = b\<lparr>customer_email := v\<rparr>"
| "assign b (SetCustomerPhone v) = b\<lparr>customer_phone := v\<rparr>"
| "assign b (SetVehicleType v) = b\<lparr>vehicle_type := v\<rparr>"
| "assign b (SetBookingDate v) = b\<lparr>booking_date := v\<rparr>"
| "assign b (SetBookingTime v) = b\<lparr>booking_time := v\<rparr>"
| "assign b (SetAddress v) = b\<lparr>address := v\<rparr>"
| "assign b (SetNotes v) = b\<lparr>notes_col := v\<rparr>"
| "assign b (SetTotalAmount v) = b\<lparr>total_amount := v\<rparr>"
| "assign b (SetDepositAmount v) = b\<lparr>deposit_amount := v\<rparr>"
| "assign b (SetStatus v) = b\<lparr>status := v\<rparr>"

fun pushed :: "'a option \<Rightarrow> ('a \<Rightarrow> assignment) \<Rightarrow> assignment list" where
  "pushed None f = []"
| "pushed (Some v) f = [f v]"

definition field_updates :: "booking_update \<Rightarrow> assignment list" where
  "field_updates u =
     pushed (u_customerName u) SetCustomerName @ pushed (u_customerEmail u) SetCustomerEmail @
     pushed (u_customerPhone u) SetCustomerPhone @ pushed (u_vehicleType u) SetVehicleType @
     pushed (u_bookingDate u) SetBookingDate @ pushed (u_bookingTime u) SetBookingTime @
     pushed (u_address u) SetAddress @ pushed (u_notes u) SetNotes @
     pushed (u_totalAmount u) SetTotalAmount @ pushed (u_depositAmount u) SetDepositAmount"

definition run_update ::
  "database \<Rightarrow> int \<Rightarrow> (nat \<Rightarrow> bool) \<Rightarrow> nat \<Rightarrow> assignment list \<Rightarrow> database \<times> booking response" where
  "run_update db now fails bid updates =
     (if updates = [] then (db, Failure 400 ''No fields to update'')
      else if fails 0 then (db, Failure 500 ''Failed to update booking'')
      else
       (let bs = map (\<lambda>b. if booking_id b = bid
                           then (foldl assign b updates)\<lparr>updated_at := now\<rparr> else b)
                   (bookings db)
        in case filter (\<lambda>b. booking_id b = bid) bs of
             [] \<Rightarrow> (db, Failure 404 ''Booking not found'')
           | b # _ \<Rightarrow> (db\<lparr>bookings := bs\<rparr>, Success 200 b)))"

definition update_booking ::
  "database \<Rightarrow> int \<Rightarrow> (nat \<Rightarrow> bool) \<Rightarrow> nat \<Rightarrow> booking_update \<Rightarrow> database \<times> booking response" where
  "update_booking db now fails bid u =
     (case u_status u of
        JUndefined \<Rightarrow> run_update db now fails bid (field_updates u)
      | JStr s \<Rightarrow>
          (if \<not> includes_status (JStr s) then (db, Failure 400 ''Invalid status'')
           else run_update db now fails bid (field_updates u @ [SetStatus s]))
      | _ \<Rightarrow> (db, Failure 400 ''Invalid status''))"

section \<open>Google reviews (backend/routes/google-reviews.js)\<close>

text \<open>
  \<open>CACHE_HOURS = parseInt(process.env.GOOGLE_REVIEWS_CACHE_HOURS) || 24\<close>: NaN and
  zero give 24.
\<close>

definition CACHE_HOURS :: "environment \<Rightarrow> int" where
  "CACHE_HOURS env =
     (case GOOGLE_REVIEWS_CACHE_HOURS env of None \<Rightarrow> 24 | Some h \<Rightarrow> if h = 0 then 24 else h)"

fun truthy_string :: "string option \<Rightarrow> bool" where
  "truthy_string None = False"
| "truthy_string (Some s) = (s \<noteq> [])"

definition isConfigured :: "environment \<Rightarrow> bool" where
  "isConfigured env =
     (truthy_string (GOOGLE_MAPS_API_KEY env) \<and> truthy_string (GOOGLE_PLACE_ID env))"

text \<open>
  The answer of the Places API, with the fields \<open>transformReviews\<close> reads; a field is
  \<open>None\<close> when it, or the object it is read through with \<open>?.\<close>, is missing.
\<close>

record google_review =
  g_displayName :: "string option"
  g_photoUri :: "string option"
  g_rating :: "jsnum option"
  g_text :: "string option"
  g_originalText :: "string option"
  g_relativePublishTimeDescription :: "string option"
  g_publishTime :: "string option"
  g_googleMapsUri :: "string option"

record google_data =
  gd_rating :: "jsnum option"
  gd_userRatingCount :: "int option"
  gd_displayName :: "string option"
  gd_reviews :: "google_review list option"

text \<open>\<open>x || null\<close> on a string and on a number.\<close>

fun string_or_null :: "string option \<Rightarrow> string option" where
  "string_or_null (Some s) = (if s = [] then None else Some s)"
| "string_or_null None = None"

fun num_or_null :: "jsnum option \<Rightarrow> jsnum option" where
  "num_or_null (Some x) = (if num_falsy x then None else Some x)"
| "num_or_null None = None"

definition transformReview :: "google_review \<Rightarrow> review" where
  "transformReview g =
     \<lparr>author_name = or_default (g_displayName g) ''Anonymous'',
      author_photo_url = string_or_null (g_photoUri g),
      rating = (case num_or_null (g_rating g) of None \<Rightarrow> Fin 5 | Some x \<Rightarrow> x),
      review_text = or_default (g_text g) (or_default (g_originalText g) []),
      relative_time = or_default (g_relativePublishTimeDescription g) [],
      publish_time = string_or_null (g_publishTime g),
      google_maps_uri = string_or_null (g_googleMapsUri g)\<rparr>"

definition transformReviews :: "google_data \<Rightarrow> reviews_data" where
  "transformReviews g =
     \<lparr>rd_overall_rating = num_or_null (gd_rating g),
      rd_total_reviews = (case gd_userRatingCount g of None \<Rightarrow> 0 | Some n \<Rightarrow> n),
      rd_business_name = or_default (gd_displayName g) [],
      rd_reviews = map transformReview (case gd_reviews g of None \<Rightarrow> [] | Some rs \<Rightarrow> rs)\<rparr>"

record reviews_body =
  rb_overall_rating :: "jsnum option"
  rb_total_reviews :: int
  rb_reviews :: "review list"
  rb_business_name :: string
  rb_cached :: bool
  rb_stale :: bool
  rb_cached_at :: int

text \<open>What the handler reads out of a cache row; \<open>parseFloat\<close> of a NULL rating is NaN.\<close>

definition from_cache :: "cache_row \<Rightarrow> bool \<Rightarrow> reviews_body" where
  "from_cache c is_stale =
     \<lparr>rb_overall_rating = Some (case overall_rating c of None \<Rightarrow> NaN | Some x \<Rightarrow> x),
      rb_total_reviews = total_reviews c,
      rb_reviews = rd_reviews (reviews_json c),
      rb_business_name = rd_business_name (reviews_json c),
      rb_cached = True, rb_stale = is_stale, rb_cached_at = cached_at c\<rparr>"

text \<open>
  \<open>INSERT ... ON CONFLICT (place_id) DO UPDATE\<close>: the row of the place is replaced, or
  the new row is added when the place has none.
\<close>

definition upsert_cache :: "cache_row \<Rightarrow> cache_row list \<Rightarrow> cache_row list" where
  "upsert_cache new rows =
     (if place_id new \<in> set (map place_id rows)
      then map (\<lambda>r. if place_id r = place_id new then new else r) rows
      else rows @ [new])"

text \<open>
  \<open>getCachedOrFetch\<close>.  The answer of the Places API is a parameter: \<open>None\<close> when
  \<open>fetchFromGoogle\<close> throws (the request fails or the status is not ok).  Steps: 0 the
  cache query, 2 the upsert.  The result is the database, whether the Places API was
  called, and the data, \<open>None\<close> when the function throws.
\<close>

definition getCachedOrFetch ::
  "database \<Rightarrow> environment \<Rightarrow> int \<Rightarrow> (nat \<Rightarrow> bool) \<Rightarrow> google_data option \<Rightarrow> string \<Rightarrow> bool \<Rightarrow>
     database \<times> bool \<times> reviews_body option" where
  "getCachedOrFetch db env now fails upstream placeId forceRefresh =
     (let fetch =
        (case upstream of
           None \<Rightarrow> (db, True, None)
         | Some googleData \<Rightarrow>
            (let transformed = transformReviews googleData;
                 row = \<lparr>place_id = placeId, overall_rating = rd_overall_rating transformed,
                        total_reviews = rd_total_reviews transformed,
                        reviews_json = transformed, cached_at = now\<rparr>
             in if fails 2 then (db, True, None)
                else (db\<lparr>google_reviews_cache := upsert_cache row (google_reviews_cache db)\<rparr>,
                      True,
                      Some \<lparr>rb_overall_rating = rd_overall_rating transformed,
                            rb_total_reviews = rd_total_reviews transformed,
                            rb_reviews = rd_reviews transformed,
                            rb_business_name = rd_business_name transformed,
                            rb_cached = False, rb_stale = False, rb_cached_at = now\<rparr>)))
      in if forceRefresh then fetch
         else if fails 0 then (db, False, None)
         else case filter (\<lambda>c. place_id c = placeId \<and> now - CACHE_HOURS env * 3600 < cached_at c)
                     (google_reviews_cache db) of
                cached # _ \<Rightarrow> (db, False, Some (from_cache cached False))
              | [] \<Rightarrow> fetch)"

datatype reviews_answer = NotConfigured | Reviews reviews_body

text \<open>
  GET /api/google-reviews.  Step 3 is the query of the fallback, inside its own
  \<open>try\<close>: when it throws too, the answer is the 500.
\<close>

definition get_google_reviews ::
  "database \<Rightarrow> environment \<Rightarrow> int \<Rightarrow> (nat \<Rightarrow> bool) \<Rightarrow> google_data option \<Rightarrow>
     database \<times> bool \<times> reviews_answer response" where
  "get_google_reviews db env now fails upstream =
     (if \<not> isConfigured env then (db, False, Success 200 NotConfigured)
      else case GOOGLE_PLACE_ID env of
        None \<Rightarrow> (db, False, Success 200 NotConfigured)
      | Some placeId \<Rightarrow>
         (case getCachedOrFetch db env now fails upstream placeId False of
            (db', called, Some data) \<Rightarrow> (db', called, Success 200 (Reviews data))
          | (db', called, None) \<Rightarrow>
             (if fails 3 then (db', called, Failure 500 ''Failed to fetch Google reviews'')
              else case filter (\<lambda>c. place_id c = placeId) (google_reviews_cache db') of
                     cached # _ \<Rightarrow> (db', called, Success 200 (Reviews (from_cache cached True)))
                   | [] \<Rightarrow> (db', called, Failure 500 ''Failed to fetch Google reviews''))))"

section \<open>Authentication (backend/routes/auth.js)\<close>











section \<open>Stated properties\<close>


section \<open>Example data\<close>

text \<open>A small shop, on which the handlers are run below.\<close>

definition no_failure :: "nat \<Rightarrow> bool" where
  "no_failure k = False"

definition empty_db :: database where
  "empty_db =
     \<lparr>coupons = [], bookings = [], services = [], packages = [], addons = [], settings = [],
      booking_addons = [], google_reviews_cache = [], admin_users = [], refresh_tokens = []\<rparr>"

definition save5 :: coupon where
  "save5 =
     \<lparr>coupon_id = 1, code = ''SAVE5'', discount_type = ''fixed'', discount_value = Fin 5,
      max_uses = None, used_count = 0, expires_at = None, is_active = True\<rparr>"

definition free100 :: coupon where
  "free100 =
     \<lparr>coupon_id = 2, code = ''FREE'', discount_type = ''percent'', discount_value = Fin 100,
      max_uses = Some 10, used_count = 3, expires_at = Some 1000, is_active = True\<rparr>"

definition wash :: booking where
  "wash =
     \<lparr>booking_id = 7, customer_name = ''Ada'', customer_email = ''ada@example.org'',
      customer_phone = ''555-0100'', vehicle_type = ''sedan'', package_id = None,
      service_id = Some 1, booking_date = ''2026-01-05'', booking_time = ''09:00'',
      address = ''1 Main St'', notes_col = [], total_amount = Fin 100,
      deposit_amount = Fin 25, status = ''pending'', payment_token = ''00a1b2c3d4e5'',
      coupon_code = None, coupon_discount = None, updated_at = 0\<rparr>"

definition shop :: database where
  "shop = empty_db\<lparr>coupons := [save5, free100], bookings := [wash]\<rparr>"

definition full_detail :: service where
  "full_detail = \<lparr>svc_id = 1, svc_name = ''Full Detail'', svc_sedan_price = Fin 150,
     svc_suv_price = Fin 180, svc_truck_price = Fin 200\<rparr>"

definition wax :: addon where
  "wax = \<lparr>addon_id = 4, addon_name = ''Wax'', addon_sedan_price = Fin 20,
     addon_suv_price = Fin 25, addon_commercial_price = Fin 40, addon_is_active = True\<rparr>"

definition pet_hair :: addon where
  "pet_hair = \<lparr>addon_id = 5, addon_name = ''Pet hair'', addon_sedan_price = Fin 30,
     addon_suv_price = Fin 35, addon_commercial_price = Fin 50, addon_is_active = False\<rparr>"

definition garage :: database where
  "garage = shop\<lparr>services := [full_detail], addons := [wax, pet_hair]\<rparr>"

definition plain_env :: environment where
  "plain_env = \<lparr>DEPOSIT_PERCENTAGE = None, APP_URL = None, GOOGLE_MAPS_API_KEY = Some ''key'',
     GOOGLE_PLACE_ID = Some ''place-1'', GOOGLE_REVIEWS_CACHE_HOURS = None,
     ADMIN_EMAIL = Some ''owner@example.org'', ADMIN_PASSWORD = Some ''s3cret''\<rparr>"

definition counting_source :: "nat \<Rightarrow> 8 word" where
  "counting_source i = of_nat (37 * i + 10)"

definition suv_request :: booking_request where
  "suv_request = \<lparr>customerName = ''Bo'', customerEmail = ''bo@example.org'',
     customerPhone = ''555-0101'', vehicleType = ''SUV'', packageId = None,
     serviceId = Some 1, addonIds = Some [4, 5], bookingDate = ''2026-02-01'',
     bookingTime = ''10:00'', req_address = ''2 Side St'', req_notes = []\<rparr>"

definition rename_only :: booking_update where
  "rename_only =
     \<lparr>u_customerName = Some ''Ada L.'', u_customerEmail = None, u_customerPhone = None,
      u_vehicleType = None, u_bookingDate = None, u_bookingTime = None, u_address = None,
      u_notes = None, u_totalAmount = None, u_depositAmount = None, u_status = JUndefined\<rparr>"

definition five_stars :: reviews_data where
  "five_stars =
     \<lparr>rd_overall_rating = Some (Fin 5), rd_total_reviews = 1, rd_business_name = ''Showers'',
      rd_reviews =
        [\<lparr>author_name = ''Cy'', author_photo_url = None, rating = Fin 5,
          review_text = ''Spotless'', relative_time = ''a week ago'', publish_time = None,
          google_maps_uri = None\<rparr>]\<rparr>"

definition old_row :: cache_row where
  "old_row =
     \<lparr>place_id = ''place-1'', overall_rating = Some (Fin 5), total_reviews = 1,
      reviews_json = five_stars, cached_at = 0\<rparr>"

definition reviewed :: database where
  "reviewed = empty_db\<lparr>google_reviews_cache := [old_row]\<rparr>"

definition google_says :: google_data where
  "google_says =
     \<lparr>gd_rating = Some (Fin (9 / 2)), gd_userRatingCount = Some 2,
      gd_displayName = Some ''Showers Auto Detail'', gd_reviews = None\<rparr>"

definition two_step :: package where
  "two_step =
     \<lparr>pkg_id = 2, pkg_name = ''Two Step'', base_price = Fin 100,
      vehicle_multipliers = [(''suv'', Fin (3 / 2)), (''truck'', Fin 0)]\<rparr>"

definition depot :: database where
  "depot = garage\<lparr>packages := [two_step], settings := [(''deposit_percentage'', Fin (1 / 2))]\<rparr>"

definition eighth_env :: environment where
  "eighth_env = plain_env\<lparr>DEPOSIT_PERCENTAGE := Some (Fin (1 / 8))\<rparr>"

definition sedan_request :: booking_request where
  "sedan_request = suv_request\<lparr>vehicleType := ''Sedan'', packageId := Some 2, addonIds := Some [4]\<rparr>"

definition commercial_request :: booking_request where
  "commercial_request = suv_request\<lparr>vehicleType := ''Commercial'', addonIds := Some [4]\<rparr>"

definition truck_request :: booking_request where
  "truck_request = suv_request\<lparr>vehicleType := ''truck'', addonIds := Some [5, 4]\<rparr>"

definition package_request :: "string \<Rightarrow> booking_request" where
  "package_request vt =
     suv_request\<lparr>vehicleType := vt, serviceId := None, packageId := Some 2, addonIds := None\<rparr>"


definition owner :: admin_user where
  "owner =
     \<lparr>user_id = 1, email = ''owner@example.org'', password_hash = ''ENV_MANAGED'',
      user_name = ''Admin'', role = ''admin'', user_is_active = True, totp_enabled = False,
      totp_secret = None\<rparr>"




section \<open>Properties of the coupon handlers\<close>

subsection \<open>Rounding to cents is monotone\<close>

lemma round_cents_mono: "x \<le> y \<Longrightarrow> round_cents x \<le> round_cents y"
  unfolding round_cents_def
  by (simp add: divide_right_mono floor_mono)

lemma round_cents_below: "x < 10 ^ 21 \<Longrightarrow> round_cents x \<le> 10 ^ 21"
  unfolding round_cents_def by simp

lemma round_cents_nonneg: "0 \<le> x \<Longrightarrow> 0 \<le> round_cents x"
  unfolding round_cents_def by simp

lemma toFixed2_rat_mono:
  assumes "x \<le> y"
  shows "toFixed2_rat x \<le> toFixed2_rat y"
proof -
  consider (nn) "x < 0" "y < 0" | (np) "x < 0" "0 \<le> y" | (pp) "0 \<le> x" "0 \<le> y"
    using assms by linarith
  then show ?thesis
  proof cases
    case nn
    show ?thesis
    proof (cases "10 ^ 21 \<le> - y")
      case True
      with nn assms show ?thesis by (simp add: toFixed2_rat_def)
    next
      case False
      then have "round_cents (- y) \<le> 10 ^ 21"
        using round_cents_below [of "- y"] by simp
      moreover have "round_cents (- y) \<le> round_cents (- x)"
        using assms by (simp add: round_cents_mono)
      ultimately show ?thesis using nn False by (simp add: toFixed2_rat_def)
    qed
  next
    case np
    have "toFixed2_rat x \<le> 0"
      using np round_cents_nonneg [of "- x"] by (simp add: toFixed2_rat_def)
    moreover have "0 \<le> toFixed2_rat y"
      using np round_cents_nonneg [of y] by (simp add: toFixed2_rat_def)
    ultimately show ?thesis by simp
  next
    case pp
    show ?thesis
    proof (cases "10 ^ 21 \<le> x")
      case True
      with pp assms show ?thesis by (simp add: toFixed2_rat_def)
    next
      case False
      then have "round_cents x \<le> 10 ^ 21"
        using round_cents_below [of x] by simp
      moreover have "round_cents x \<le> round_cents y"
        using assms by (simp add: round_cents_mono)
      ultimately show ?thesis using pp False by (simp add: toFixed2_rat_def)
    qed
  qed
qed

text \<open>A whole number of cents is printed as it is.\<close>

lemma toFixed2_rat_cents: "toFixed2_rat (of_int k / 100) = of_int k / 100"
proof -
  have half: "\<lfloor>(of_int j :: rat) + 1 / 2\<rfloor> = j" for j by linarith
  have "round_cents (of_int j / 100) = of_int j / 100" for j
    using half [of j] by (simp add: round_cents_def)
  from this [of k] this [of "- k"] show ?thesis
    by (simp add: toFixed2_rat_def)
qed

lemma js_min_not_gt: "\<not> js_gt (js_min a b) b"
  by (cases a; cases b) (auto simp: js_gt_def)

lemma coupon_discount_not_gt: "\<not> js_gt (coupon_discount_of r amount) amount"
  by (simp add: coupon_discount_of_def js_min_not_gt)

lemma toFixed2_not_gt: "\<not> js_gt a b \<Longrightarrow> \<not> js_gt (toFixed2 a) (toFixed2 b)"
  by (cases a; cases b) (auto simp: js_gt_def not_less toFixed2_rat_mono)

subsection \<open>What a successful request has done\<close>

lemma filter_Cons_hd: "filter P xs = y # ys \<Longrightarrow> y \<in> set xs \<and> P y"
proof -
  assume "filter P xs = y # ys"
  then have "y \<in> set (filter P xs)" by simp
  then show ?thesis by simp
qed

lemma validate_coupon_success:
  assumes "validate_coupon db now fails cd subtotal = Success st res"
  shows "\<exists>s r rs. cd = JStr s \<and> s \<noteq> [] \<and> \<not> fails 0 \<and>
           select_coupon (coupons db) now (toUpperCase s) = r # rs \<and> st = 200 \<and>
           res = \<lparr>v_valid = True, v_code = code r, v_discountType = discount_type r,
                   v_discountValue = discount_value r,
                   v_discountAmount = toFixed2 (coupon_discount_of r subtotal)\<rparr>"
  using assms
  by (cases cd) (auto simp: validate_coupon_def split: if_splits list.splits)

lemma apply_coupon_success:
  assumes "apply_coupon db now fails cd bookingId = (db', ws, Success st res)"
  shows "\<exists>s r rs b bs d t dep. cd = JStr s \<and> s \<noteq> [] \<and> bookingId \<noteq> Some 0 \<and>
           \<not> fails 0 \<and> \<not> fails 1 \<and> \<not> fails 2 \<and> \<not> fails 3 \<and>
           select_coupon (coupons db) now (toUpperCase s) = r # rs \<and>
           filter (\<lambda>b. Some (booking_id b) = bookingId) (bookings db) = b # bs \<and>
           apply_amounts r b = (d, t, dep) \<and>
           ws = [UpdateBookingCoupon (booking_id b) (code r) d t dep,
                 IncrementUsedCount (coupon_id r)] \<and>
           db' = fold apply_write ws db \<and> st = 200 \<and>
           res = \<lparr>r_discountApplied = toFixed2 d, r_newTotal = toFixed2 t,
                   r_newDeposit = toFixed2 dep\<rparr>"
  using assms
  by (cases cd)
     (auto simp: apply_coupon_def Let_def split: if_splits list.splits prod.splits)

subsection \<open>The discount is capped, then rounded\<close>

text \<open>
  C1, as the claim states it, fails in validate: the discount is capped at the subtotal
  and then rounded to cents for the response, and rounding can go up.  With the coupon
  SAVE5 (5 off) and the subtotal 0.125 the capped discount is 0.125, and the
  \<open>discountAmount\<close> returned is 0.13, which exceeds the subtotal.
\<close>

theorem validate_discount_exceeds_subtotal:
  "validate_coupon shop 0 no_failure (JStr ''save5'') (Fin (1 / 8)) =
     Success 200
       \<lparr>v_valid = True, v_code = ''SAVE5'', v_discountType = ''fixed'',
        v_discountValue = Fin 5, v_discountAmount = Fin (13 / 100)\<rparr> \<and>
   js_gt (Fin (13 / 100)) (Fin (1 / 8))"
  by code_simp

text \<open>
  C1, amended.  For every validation that succeeds, the \<open>discountAmount\<close> returned is the
  rounding to cents of a discount that does not exceed the subtotal; so it never exceeds
  the subtotal rounded to cents, and never the subtotal itself when that is a whole
  number of cents.  For every application that succeeds, the discount written to the
  booking does not exceed the booking's \<open>total_amount\<close>, and the new total is the old
  one minus that discount.
\<close>

theorem discount_capped:
  "(validate_coupon db now fails cd subtotal = Success st res \<longrightarrow>
      (\<exists>d. v_discountAmount res = toFixed2 d \<and> \<not> js_gt d subtotal) \<and>
      \<not> js_gt (v_discountAmount res) (toFixed2 subtotal) \<and>
      (subtotal = Fin (of_int k / 100) \<longrightarrow> \<not> js_gt (v_discountAmount res) subtotal)) \<and>
   (apply_coupon db now fails cd bookingId = (db', ws, Success st' res') \<longrightarrow>
      (\<exists>b bs c cid d t dep.
         filter (\<lambda>b. Some (booking_id b) = bookingId) (bookings db) = b # bs \<and>
         ws = [UpdateBookingCoupon (booking_id b) c d t dep, IncrementUsedCount cid] \<and>
         \<not> js_gt d (total_amount b) \<and> t = js_sub (total_amount b) d))"
proof (intro conjI impI)
  assume v: "validate_coupon db now fails cd subtotal = Success st res"
  from validate_coupon_success [OF v] obtain r where
    amt: "v_discountAmount res = toFixed2 (coupon_discount_of r subtotal)"
    by auto
  show "\<exists>d. v_discountAmount res = toFixed2 d \<and> \<not> js_gt d subtotal"
    using amt coupon_discount_not_gt by blast
  show le: "\<not> js_gt (v_discountAmount res) (toFixed2 subtotal)"
    using amt by (simp add: toFixed2_not_gt coupon_discount_not_gt)
  assume "subtotal = Fin (of_int k / 100)"
  then have "toFixed2 subtotal = subtotal" by (simp add: toFixed2_rat_cents)
  with le show "\<not> js_gt (v_discountAmount res) subtotal" by simp
next
  assume a: "apply_coupon db now fails cd bookingId = (db', ws, Success st' res')"
  from apply_coupon_success [OF a] obtain r b bs d t dep where
    sel: "filter (\<lambda>b. Some (booking_id b) = bookingId) (bookings db) = b # bs" and
    amts: "apply_amounts r b = (d, t, dep)" and
    ws: "ws = [UpdateBookingCoupon (booking_id b) (code r) d t dep,
               IncrementUsedCount (coupon_id r)]"
    by blast
  from amts have "d = coupon_discount_of r (total_amount b)" "t = js_sub (total_amount b) d"
    by (auto simp: apply_amounts_def Let_def)
  then show "\<exists>b bs c cid d t dep.
         filter (\<lambda>b. Some (booking_id b) = bookingId) (bookings db) = b # bs \<and>
         ws = [UpdateBookingCoupon (booking_id b) c d t dep, IncrementUsedCount cid] \<and>
         \<not> js_gt d (total_amount b) \<and> t = js_sub (total_amount b) d"
    using sel ws coupon_discount_not_gt by force
qed

text \<open>
  The theorem at work: SAVE5 on a subtotal of 3 is capped at 3, and on the booking of
  100 it takes 5 off.
\<close>

theorem discount_capped_witness:
  "validate_coupon shop 0 no_failure (JStr ''Save5'') (Fin 3) =
     Success 200
       \<lparr>v_valid = True, v_code = ''SAVE5'', v_discountType = ''fixed'',
        v_discountValue = Fin 5, v_discountAmount = Fin 3\<rparr> \<and>
   \<not> js_gt (Fin 3) (Fin 3) \<and>
   snd (apply_coupon shop 0 no_failure (JStr ''Save5'') (Some 7)) =
     ([UpdateBookingCoupon 7 ''SAVE5'' (Fin 5) (Fin 95) (Fin (95 / 4)), IncrementUsedCount 1],
      Success 200
        \<lparr>r_discountApplied = Fin 5, r_newTotal = Fin 95, r_newDeposit = Fin (2375 / 100)\<rparr>) \<and>
   \<not> js_gt (Fin 5) (total_amount wash)"
proof -
  let ?res = "\<lparr>v_valid = True, v_code = ''SAVE5'', v_discountType = ''fixed'',
        v_discountValue = Fin 5, v_discountAmount = Fin 3\<rparr>"
  let ?ws = "[UpdateBookingCoupon 7 ''SAVE5'' (Fin 5) (Fin 95) (Fin (95 / 4)),
              IncrementUsedCount 1]"
  let ?res' = "\<lparr>r_discountApplied = Fin 5, r_newTotal = Fin 95,
                 r_newDeposit = Fin (2375 / 100)\<rparr>"
  let ?db' = "fst (apply_coupon shop 0 no_failure (JStr ''Save5'') (Some 7))"
  have v: "validate_coupon shop 0 no_failure (JStr ''Save5'') (Fin 3) = Success 200 ?res"
    by code_simp
  have s: "snd (apply_coupon shop 0 no_failure (JStr ''Save5'') (Some 7)) =
             (?ws, Success 200 ?res')"
    by code_simp
  then have a: "apply_coupon shop 0 no_failure (JStr ''Save5'') (Some 7) =
                  (?db', ?ws, Success 200 ?res')"
    by (metis prod.collapse)
  have f: "filter (\<lambda>b. Some (booking_id b) = Some 7) (bookings shop) = [wash]"
    by code_simp
  note capped = discount_capped [of shop 0 no_failure "JStr ''Save5''" "Fin 3" 200 ?res 300
      "Some 7" ?db' ?ws 200 ?res']
  from capped v have c1: "\<not> js_gt (Fin 3) (Fin 3)" by simp
  from capped a obtain b bs c cid d t dep where
    "filter (\<lambda>b. Some (booking_id b) = Some 7) (bookings shop) = b # bs"
    "?ws = [UpdateBookingCoupon (booking_id b) c d t dep, IncrementUsedCount cid]"
    "\<not> js_gt d (total_amount b)"
    by blast
  with f have c2: "\<not> js_gt (Fin 5) (total_amount wash)" by simp
  from v c1 s c2 show ?thesis by blast
qed

subsection \<open>The two writes of apply\<close>

text \<open>
  C3.  A successful POST /api/coupons/apply makes exactly two writes, in this order: the
  UPDATE of the booking (\<open>coupon_code\<close> set, \<open>coupon_discount\<close> set to the capped discount,
  \<open>total_amount\<close> reduced by it, \<open>deposit_amount\<close> recomputed) and the UPDATE of the coupon,
  which adds one to \<open>used_count\<close> and changes nothing else.  No transaction spans them:
  when the same request stops at the second write, the booking is updated, the coupons
  are as before, and the answer is the 500.
\<close>

theorem apply_coupon_two_writes:
  assumes "apply_coupon db now fails cd bookingId = (db', ws, Success st res)"
  shows "\<exists>r b d t dep w1 w2.
           r \<in> set (coupons db) \<and> b \<in> set (bookings db) \<and> Some (booking_id b) = bookingId \<and>
           apply_amounts r b = (d, t, dep) \<and>
           w1 = UpdateBookingCoupon (booking_id b) (code r) d t dep \<and>
           w2 = IncrementUsedCount (coupon_id r) \<and>
           ws = [w1, w2] \<and> db' = apply_write w2 (apply_write w1 db) \<and>
           bookings (apply_write w1 db) =
             map (\<lambda>x. if booking_id x = booking_id b
                       then x\<lparr>coupon_code := Some (code r), coupon_discount := Some d,
                              total_amount := js_sub (total_amount b) d,
                              deposit_amount :=
                                js_mul (js_sub (total_amount b) d)
                                  (js_div (deposit_amount b) (total_amount b))\<rparr>
                       else x) (bookings db) \<and>
           coupons (apply_write w1 db) = coupons db \<and>
           bookings db' = bookings (apply_write w1 db) \<and>
           coupons db' =
             map (\<lambda>c. if coupon_id c = coupon_id r then c\<lparr>used_count := used_count c + 1\<rparr>
                       else c) (coupons db) \<and>
           apply_coupon db now (\<lambda>k. k = 3 \<or> fails k) cd bookingId =
             (apply_write w1 db, [w1], Failure 500 ''Failed to apply coupon'')"
proof -
  from apply_coupon_success [OF assms] obtain s r rs b bs d t dep where
    cd: "cd = JStr s" "s \<noteq> []" "bookingId \<noteq> Some 0" and
    nf: "\<not> fails 0" "\<not> fails 1" "\<not> fails 2" "\<not> fails 3" and
    selc: "select_coupon (coupons db) now (toUpperCase s) = r # rs" and
    selb: "filter (\<lambda>b. Some (booking_id b) = bookingId) (bookings db) = b # bs" and
    amts: "apply_amounts r b = (d, t, dep)" and
    ws: "ws = [UpdateBookingCoupon (booking_id b) (code r) d t dep,
               IncrementUsedCount (coupon_id r)]" and
    db': "db' = fold apply_write ws db"
    by blast
  let ?w1 = "UpdateBookingCoupon (booking_id b) (code r) d t dep"
  let ?w2 = "IncrementUsedCount (coupon_id r)"
  from selc have rin: "r \<in> set (coupons db)"
    using filter_Cons_hd [of "coupon_usable now (toUpperCase s)" "coupons db" r rs]
    by (simp add: select_coupon_def)
  from selb have bin: "b \<in> set (bookings db)" "Some (booking_id b) = bookingId"
    using filter_Cons_hd [OF selb] by simp_all
  from amts have vals: "d = coupon_discount_of r (total_amount b)"
      "t = js_sub (total_amount b) d"
      "dep = js_mul (js_sub (total_amount b) d) (js_div (deposit_amount b) (total_amount b))"
    by (auto simp: apply_amounts_def Let_def)
  have crash: "apply_coupon db now (\<lambda>k. k = 3 \<or> fails k) cd bookingId =
             (apply_write ?w1 db, [?w1], Failure 500 ''Failed to apply coupon'')"
    using cd nf selc selb amts bin(2) by (auto simp: apply_coupon_def)
  show ?thesis
    apply (rule exI [of _ r], rule exI [of _ b], rule exI [of _ d], rule exI [of _ t],
        rule exI [of _ dep], rule exI [of _ ?w1], rule exI [of _ ?w2])
    using rin bin amts ws db' crash vals(2,3) by simp
qed

text \<open>The theorem on the booking of 100 with the coupon FREE, whose count goes from 3 to 4.\<close>

theorem apply_coupon_two_writes_witness:
  "snd (apply_coupon shop 0 no_failure (JStr ''free'') (Some 7)) =
     ([UpdateBookingCoupon 7 ''FREE'' (Fin 100) (Fin 0) (Fin 0), IncrementUsedCount 2],
      Success 200 \<lparr>r_discountApplied = Fin 100, r_newTotal = Fin 0, r_newDeposit = Fin 0\<rparr>) \<and>
   map used_count (coupons shop) = [0, 3] \<and>
   map used_count (coupons (fst (apply_coupon shop 0 no_failure (JStr ''free'') (Some 7)))) =
     [0, 4] \<and>
   apply_coupon shop 0 (\<lambda>k. k = 3 \<or> no_failure k) (JStr ''free'') (Some 7) =
     (apply_write (UpdateBookingCoupon 7 ''FREE'' (Fin 100) (Fin 0) (Fin 0)) shop,
      [UpdateBookingCoupon 7 ''FREE'' (Fin 100) (Fin 0) (Fin 0)],
      Failure 500 ''Failed to apply coupon'') \<and>
   map used_count
     (coupons (apply_write (UpdateBookingCoupon 7 ''FREE'' (Fin 100) (Fin 0) (Fin 0)) shop)) =
     [0, 3] \<and>
   map coupon_code
     (bookings (apply_write (UpdateBookingCoupon 7 ''FREE'' (Fin 100) (Fin 0) (Fin 0)) shop)) =
     [Some ''FREE'']"
proof -
  let ?w = "UpdateBookingCoupon 7 ''FREE'' (Fin 100) (Fin 0) (Fin 0)"
  let ?ws = "[?w, IncrementUsedCount 2]"
  let ?res = "\<lparr>r_discountApplied = Fin 100, r_newTotal = Fin 0, r_newDeposit = Fin 0\<rparr>"
  let ?db' = "fst (apply_coupon shop 0 no_failure (JStr ''free'') (Some 7))"
  have s: "snd (apply_coupon shop 0 no_failure (JStr ''free'') (Some 7)) =
             (?ws, Success 200 ?res)"
    by code_simp
  then have a: "apply_coupon shop 0 no_failure (JStr ''free'') (Some 7) =
                  (?db', ?ws, Success 200 ?res)"
    by (metis prod.collapse)
  from apply_coupon_two_writes [OF a] obtain r :: coupon and w1 w2 where
    ws: "?ws = [w1, w2]" and
    r: "w2 = IncrementUsedCount (coupon_id r)" and
    cs: "coupons ?db' =
          map (\<lambda>c. if coupon_id c = coupon_id r then c\<lparr>used_count := used_count c + 1\<rparr>
                    else c) (coupons shop)" and
    crash: "apply_coupon shop 0 (\<lambda>k. k = 3 \<or> no_failure k) (JStr ''free'') (Some 7) =
              (apply_write w1 shop, [w1], Failure 500 ''Failed to apply coupon'')"
    by blast
  from ws have w1: "w1 = ?w" and w2: "w2 = IncrementUsedCount 2" by simp_all
  from r w2 have "coupon_id r = 2" by simp
  with cs have after: "map used_count (coupons ?db') = [0, 4]"
    by (simp add: shop_def empty_db_def save5_def free100_def)
  have before: "map used_count (coupons shop) = [0, 3]"
    by (simp add: shop_def empty_db_def save5_def free100_def)
  have mid: "map used_count (coupons (apply_write ?w shop)) = [0, 3]"
    by (simp add: shop_def empty_db_def save5_def free100_def)
  have midb: "map coupon_code (bookings (apply_write ?w shop)) = [Some ''FREE'']"
    by (simp add: shop_def empty_db_def wash_def)
  from s before after crash w1 mid midb show ?thesis by simp
qed

subsection \<open>The deposit ratio\<close>

text \<open>
  C9, as the claim states it, fails when the discount takes the whole total: the coupon
  FREE (100 percent) on the booking of 100 with a deposit of 25 writes a total of 0 and
  a deposit of 0, and 0 / 0 is NaN, not the ratio 25 / 100 of before.
\<close>

theorem deposit_ratio_lost_at_zero_total:
  "snd (apply_coupon shop 0 no_failure (JStr ''FREE'') (Some 7)) =
     ([UpdateBookingCoupon 7 ''FREE'' (Fin 100) (Fin 0) (Fin 0), IncrementUsedCount 2],
      Success 200 \<lparr>r_discountApplied = Fin 100, r_newTotal = Fin 0, r_newDeposit = Fin 0\<rparr>) \<and>
   map total_amount (bookings shop) = [Fin 100] \<and>
   map deposit_amount (bookings shop) = [Fin 25] \<and>
   map total_amount (bookings (fst (apply_coupon shop 0 no_failure (JStr ''FREE'') (Some 7)))) =
     [Fin 0] \<and>
   map deposit_amount (bookings (fst (apply_coupon shop 0 no_failure (JStr ''FREE'') (Some 7)))) =
     [Fin 0] \<and>
   js_div (Fin 0) (Fin 0) = NaN \<and> js_div (Fin 25) (Fin 100) = Fin (1 / 4)"
  by code_simp

text \<open>
  C9, amended.  When apply succeeds, the deposit it writes is the new total times the
  quotient of the old deposit by the old total, the quotient taken first and then the
  product, as lines 191 to 193 compute them; the new total is the old one minus the
  capped discount; and every row with the id of the booking carries that total and that
  deposit.  Nothing is said of the quotient of the new deposit by the new total: the
  product and the quotient are each rounded by the machine, so it need not be the old
  ratio again, and when the discount takes the whole of a total that is not zero, the
  new total and the new deposit are both 0 and their quotient is NaN.
\<close>

theorem deposit_follows_ratio:
  assumes "apply_coupon db now fails cd bookingId = (db', ws, Success st res)"
    and "filter (\<lambda>b. Some (booking_id b) = bookingId) (bookings db) = b # bs"
  shows "\<exists>c cid d t dep.
           ws = [UpdateBookingCoupon (booking_id b) c d t dep, IncrementUsedCount cid] \<and>
           t = js_sub (total_amount b) d \<and>
           dep = js_mul t (js_div (deposit_amount b) (total_amount b)) \<and>
           list_all (\<lambda>x. booking_id x \<noteq> booking_id b \<or>
                          total_amount x = t \<and> deposit_amount x = dep) (bookings db') \<and>
           (total_amount b = Fin t0 \<and> t0 \<noteq> 0 \<and> deposit_amount b = Fin d0 \<and> t = Fin 0 \<longrightarrow>
              dep = Fin 0 \<and> js_div dep t = NaN)"
proof -
  from apply_coupon_success [OF assms(1)] assms(2) obtain r d t dep where
    amts: "apply_amounts r b = (d, t, dep)" and
    ws: "ws = [UpdateBookingCoupon (booking_id b) (code r) d t dep,
               IncrementUsedCount (coupon_id r)]" and
    db': "db' = fold apply_write ws db"
    by auto
  from amts have t: "t = js_sub (total_amount b) d"
    and dep: "dep = js_mul t (js_div (deposit_amount b) (total_amount b))"
    by (auto simp: apply_amounts_def Let_def)
  have rows: "list_all (\<lambda>x. booking_id x \<noteq> booking_id b \<or>
                          total_amount x = t \<and> deposit_amount x = dep) (bookings db')"
    unfolding db' ws by (auto simp: list_all_iff)
  have zero: "total_amount b = Fin t0 \<and> t0 \<noteq> 0 \<and> deposit_amount b = Fin d0 \<and> t = Fin 0 \<longrightarrow>
              dep = Fin 0 \<and> js_div dep t = NaN"
    using dep by simp
  from ws t dep rows zero show ?thesis by blast
qed

text \<open>
  The theorem on the booking of 100 with a deposit of 25: SAVE5 writes a total of 95 and
  a deposit of 95 * (25 / 100) = 23.75, FREE writes 0 and 0.
\<close>

theorem deposit_follows_ratio_witness:
  "filter (\<lambda>b. Some (booking_id b) = Some 7) (bookings shop) = [wash] \<and>
   total_amount wash = Fin 100 \<and> deposit_amount wash = Fin 25 \<and>
   fst (snd (apply_coupon shop 0 no_failure (JStr ''save5'') (Some 7))) =
     [UpdateBookingCoupon 7 ''SAVE5'' (Fin 5) (Fin 95) (Fin (95 / 4)), IncrementUsedCount 1] \<and>
   Fin 95 = js_sub (Fin 100) (Fin 5) \<and>
   Fin (95 / 4) = js_mul (Fin 95) (js_div (Fin 25) (Fin 100)) \<and>
   list_all (\<lambda>x. total_amount x = Fin 95 \<and> deposit_amount x = Fin (95 / 4))
     (bookings (fst (apply_coupon shop 0 no_failure (JStr ''save5'') (Some 7)))) \<and>
   fst (snd (apply_coupon shop 0 no_failure (JStr ''free'') (Some 7))) =
     [UpdateBookingCoupon 7 ''FREE'' (Fin 100) (Fin 0) (Fin 0), IncrementUsedCount 2] \<and>
   list_all (\<lambda>x. total_amount x = Fin 0 \<and> deposit_amount x = Fin 0)
     (bookings (fst (apply_coupon shop 0 no_failure (JStr ''free'') (Some 7))))"
proof -
  let ?ws = "[UpdateBookingCoupon 7 ''SAVE5'' (Fin 5) (Fin 95) (Fin (95 / 4)),
              IncrementUsedCount 1]"
  let ?res = "\<lparr>r_discountApplied = Fin 5, r_newTotal = Fin 95,
                r_newDeposit = Fin (2375 / 100)\<rparr>"
  let ?out = "apply_coupon shop 0 no_failure (JStr ''save5'') (Some 7)"
  let ?zws = "[UpdateBookingCoupon 7 ''FREE'' (Fin 100) (Fin 0) (Fin 0), IncrementUsedCount 2]"
  let ?zres = "\<lparr>r_discountApplied = Fin 100, r_newTotal = Fin 0, r_newDeposit = Fin 0\<rparr>"
  let ?zout = "apply_coupon shop 0 no_failure (JStr ''free'') (Some 7)"
  have s: "snd ?out = (?ws, Success 200 ?res)" by code_simp
  then have a: "?out = (fst ?out, ?ws, Success 200 ?res)" by (metis prod.collapse)
  have s0: "snd ?zout = (?zws, Success 200 ?zres)" by code_simp
  then have a0: "?zout = (fst ?zout, ?zws, Success 200 ?zres)" by (metis prod.collapse)
  have f: "filter (\<lambda>b. Some (booking_id b) = Some 7) (bookings shop) = [wash]"
    by code_simp
  have w: "total_amount wash = Fin 100" "deposit_amount wash = Fin 25" "booking_id wash = 7"
    by (simp_all add: wash_def)
  have ids: "list_all (\<lambda>x. booking_id x = 7) (bookings (fst ?out))"
    "list_all (\<lambda>x. booking_id x = 7) (bookings (fst ?zout))"
    by code_simp+
  from deposit_follows_ratio [OF a f, of 100 25] w ids(1)
  have one: "Fin 95 = js_sub (Fin 100) (Fin 5)"
    "Fin (95 / 4) = js_mul (Fin 95) (js_div (Fin 25) (Fin 100))"
    "list_all (\<lambda>x. total_amount x = Fin 95 \<and> deposit_amount x = Fin (95 / 4))
       (bookings (fst ?out))"
    by (auto simp: list_all_iff js_sub_def)
  from deposit_follows_ratio [OF a0 f, of 100 25] w ids(2)
  have two:
    "list_all (\<lambda>x. total_amount x = Fin 0 \<and> deposit_amount x = Fin 0) (bookings (fst ?zout))"
    by (auto simp: list_all_iff js_sub_def)
  from s s0 f w one two show ?thesis by simp
qed

subsection \<open>When validate answers 404\<close>

text \<open>
  C6, as the claim states it, fails for an empty code: no coupon row matches it, and
  the answer is the 400 of the guard before the query, not a 404.
\<close>

theorem validate_empty_code_is_400:
  "select_coupon (coupons shop) 0 (toUpperCase []) = [] \<and>
   validate_coupon shop 0 no_failure (JStr []) (Fin 10) = Failure 400 ''Coupon code required''"
  by code_simp

lemma select_coupon_empty_iff:
  "select_coupon cs now c = [] \<longleftrightarrow>
     \<not> (\<exists>r \<in> set cs. code r = c \<and> is_active r \<and>
            (expires_at r = None \<or> (\<exists>e. expires_at r = Some e \<and> now < e)) \<and>
            (max_uses r = None \<or> (\<exists>m. max_uses r = Some m \<and> used_count r < m)))"
  by (auto simp: select_coupon_def coupon_usable_def filter_empty_conv split: option.splits)

text \<open>
  C6, amended.  For a code that is a non-empty string, when the query does not fail,
  validate answers 404 exactly when no coupon row has the uppercased code, is active,
  has no expiry or one after now, and has no maximum or a \<open>used_count\<close> below it; in
  particular it answers 404 when every row with the uppercased code has its expiry at
  or before now.  The empty code and the missing code are answered with 400.
\<close>

theorem validate_404:
  assumes "s \<noteq> []" and "\<not> fails 0"
  shows "(status_of (validate_coupon db now fails (JStr s) subtotal) = 404 \<longleftrightarrow>
            \<not> (\<exists>r \<in> set (coupons db). code r = toUpperCase s \<and> is_active r \<and>
                 (expires_at r = None \<or> (\<exists>e. expires_at r = Some e \<and> now < e)) \<and>
                 (max_uses r = None \<or> (\<exists>m. max_uses r = Some m \<and> used_count r < m)))) \<and>
         ((\<forall>r \<in> set (coupons db). code r = toUpperCase s \<longrightarrow>
               (\<exists>e. expires_at r = Some e \<and> e \<le> now)) \<longrightarrow>
            validate_coupon db now fails (JStr s) subtotal =
              Failure 404 ''Invalid or expired coupon code'') \<and>
         validate_coupon db now fails (JStr []) subtotal = Failure 400 ''Coupon code required'' \<and>
         validate_coupon db now fails JUndefined subtotal = Failure 400 ''Coupon code required''"
proof (intro conjI impI)
  have st: "status_of (validate_coupon db now fails (JStr s) subtotal) = 404 \<longleftrightarrow>
          select_coupon (coupons db) now (toUpperCase s) = []"
    using assms by (auto simp: validate_coupon_def split: list.splits)
  then show "status_of (validate_coupon db now fails (JStr s) subtotal) = 404 \<longleftrightarrow>
            \<not> (\<exists>r \<in> set (coupons db). code r = toUpperCase s \<and> is_active r \<and>
                 (expires_at r = None \<or> (\<exists>e. expires_at r = Some e \<and> now < e)) \<and>
                 (max_uses r = None \<or> (\<exists>m. max_uses r = Some m \<and> used_count r < m)))"
    by (simp only: select_coupon_empty_iff)
  show "validate_coupon db now fails (JStr []) subtotal = Failure 400 ''Coupon code required''"
    by (simp add: validate_coupon_def)
  show "validate_coupon db now fails JUndefined subtotal = Failure 400 ''Coupon code required''"
    by (simp add: validate_coupon_def)
  assume "\<forall>r \<in> set (coupons db). code r = toUpperCase s \<longrightarrow>
               (\<exists>e. expires_at r = Some e \<and> e \<le> now)"
  then have "select_coupon (coupons db) now (toUpperCase s) = []"
    unfolding select_coupon_empty_iff by fastforce
  then show "validate_coupon db now fails (JStr s) subtotal =
              Failure 404 ''Invalid or expired coupon code''"
    using assms by (simp add: validate_coupon_def)
qed

text \<open>
  The theorem at time 2000: FREE expired at 1000 and is answered with 404, SAVE5 never
  expires and is not.
\<close>

theorem validate_404_witness:
  "map expires_at (filter (\<lambda>r. code r = toUpperCase ''free'') (coupons shop)) = [Some 1000] \<and>
   validate_coupon shop 2000 no_failure (JStr ''free'') (Fin 50) =
     Failure 404 ''Invalid or expired coupon code'' \<and>
   status_of (validate_coupon shop 2000 no_failure (JStr ''save5'') (Fin 50)) \<noteq> 404"
proof -
  have e: "map expires_at (filter (\<lambda>r. code r = toUpperCase ''free'') (coupons shop)) = [Some 1000]"
    by code_simp
  have nf: "\<not> no_failure 0" by (simp add: no_failure_def)
  have ne: "''free'' \<noteq> []" "''save5'' \<noteq> []" by simp_all
  have up: "toUpperCase ''free'' = ''FREE''" "toUpperCase ''save5'' = ''SAVE5''" by code_simp+
  have ex: "\<forall>r \<in> set (coupons shop). code r = toUpperCase ''free'' \<longrightarrow>
               (\<exists>e. expires_at r = Some e \<and> e \<le> 2000)"
    by (simp add: up shop_def empty_db_def save5_def free100_def)
  from validate_404 [where s = "''free''" and fails = no_failure and db = shop and now = 2000
      and subtotal = "Fin 50"] ne nf ex
  have a: "validate_coupon shop 2000 no_failure (JStr ''free'') (Fin 50) =
     Failure 404 ''Invalid or expired coupon code''" by blast
  have us: "\<exists>r \<in> set (coupons shop). code r = toUpperCase ''save5'' \<and> is_active r \<and>
                 (expires_at r = None \<or> (\<exists>e. expires_at r = Some e \<and> 2000 < e)) \<and>
                 (max_uses r = None \<or> (\<exists>m. max_uses r = Some m \<and> used_count r < m))"
    by (simp add: up shop_def empty_db_def save5_def free100_def)
  from validate_404 [where s = "''save5''" and fails = no_failure and db = shop and now = 2000
      and subtotal = "Fin 50"] ne nf us
  have b: "status_of (validate_coupon shop 2000 no_failure (JStr ''save5'') (Fin 50)) \<noteq> 404"
    by blast
  from e a b show ?thesis by blast
qed

subsection \<open>Letter case of a coupon code\<close>







subsection \<open>Discount bounds\<close>




section \<open>Properties of the booking handlers\<close>

subsection \<open>What a created booking holds\<close>

lemma select_addons_nonempty_ids:
  "select_addons as (case ids of None \<Rightarrow> None | Some is \<Rightarrow> if is = [] then None else Some is) vt =
   select_addons as ids vt"
  by (auto simp: select_addons_def split: option.splits)

lemma store_booking_success:
  assumes "store_booking db env fails row serviceName addonDetails = (db', sent, Success st res)"
  shows "bookings db' = bookings db @ [row] \<and> bc_booking res = row \<and> st = 201 \<and>
         \<not> fails 3 \<and> bc_addons res = addonDetails"
proof (cases "fails 3")
  case True
  with assms show ?thesis by (simp add: store_booking_def)
next
  case False
  show ?thesis
  proof (cases "list_ex (\<lambda>i. fails (4 + i)) [0..<length addonDetails] \<or>
                fails (4 + length addonDetails)")
    case True
    with assms False show ?thesis by (simp add: store_booking_def Let_def)
  next
    case no: False
    from assms False no have
      "db' = db\<lparr>bookings := bookings db @ [row],
                 booking_addons :=
                   booking_addons db @ addon_rows fails (booking_id row) addonDetails\<rparr>"
      and "st = 201" and "bc_booking res = row" and "bc_addons res = addonDetails"
      by (auto simp add: store_booking_def Let_def)
    with False show ?thesis by simp
  qed
qed

lemma create_booking_success:
  assumes "create_booking db env now fails src rq = (db', sent, Success st res)"
  shows "\<exists>name price row.
           lookup_price db rq = Inr (name, price) \<and>
           bookings db' = bookings db @ [row] \<and> bc_booking res = row \<and> st = 201 \<and>
           total_amount row =
             js_add price (addon_total (select_addons (addons db) (addonIds rq) (vehicleType rq))) \<and>
           deposit_amount row = js_mul (total_amount row) (deposit_percentage db env) \<and>
           payment_token row = generatePaymentToken src \<and> status row = ''pending''"
proof (cases "lookup_price db rq")
  case (Inl e)
  with assms show ?thesis
    by (cases e) (auto simp: create_booking_def Let_def split: if_splits)
next
  case (Inr np)
  obtain name price where np: "np = (name, price)" by (cases np)
  let ?ds = "select_addons (addons db) (addonIds rq) (vehicleType rq)"
  let ?total = "js_add price (addon_total ?ds)"
  let ?row = "booking_row db now rq ?total (js_mul ?total (deposit_percentage db env))
                (generatePaymentToken src)"
  from assms Inr np have
    "store_booking db env fails ?row name ?ds = (db', sent, Success st res)"
    unfolding create_booking_def Let_def select_addons_nonempty_ids
    by (simp split: if_splits)
  from store_booking_success [OF this] Inr np show ?thesis
    by (simp add: booking_row_def)
qed

lemma length_toString_hex: "length (toString_hex bs) = 2 * length bs"
  by (induction bs) (simp_all add: toString_hex_def hex_of_byte_def)

lemma hex_digit_in: "hex_digit n \<in> set ''0123456789abcdef''"
proof -
  have "n mod 16 < length ''0123456789abcdef''" by simp
  then show ?thesis unfolding hex_digit_def by (rule nth_mem)
qed

lemma set_pair_subset: "x \<in> S \<Longrightarrow> y \<in> S \<Longrightarrow> set [x, y] \<subseteq> S"
  by simp

lemma set_concat_subset: "(\<And>x. set (f x) \<subseteq> S) \<Longrightarrow> set (concat (map f xs)) \<subseteq> S"
  by (induction xs) auto

lemma set_toString_hex: "set (toString_hex bs) \<subseteq> set ''0123456789abcdef''"
proof -
  have "set (hex_of_byte b) \<subseteq> set ''0123456789abcdef''" for b
    unfolding hex_of_byte_def by (rule set_pair_subset) (rule hex_digit_in)+
  then show ?thesis unfolding toString_hex_def by (rule set_concat_subset)
qed

lemma generatePaymentToken_hex:
  "length (generatePaymentToken src) = 12 \<and>
   set (generatePaymentToken src) \<subseteq> set ''0123456789abcdef''"
proof
  show "length (generatePaymentToken src) = 12"
    by (simp add: generatePaymentToken_def length_toString_hex randomBytes_def)
  show "set (generatePaymentToken src) \<subseteq> set ''0123456789abcdef''"
    unfolding generatePaymentToken_def by (rule set_toString_hex)
qed

text \<open>
  The helpers of the model spelled out as the columns and tests of the source, and the
  success of a request whose price is found when no step fails.
\<close>

lemma num_falsy_iff: "num_falsy m \<longleftrightarrow> m = Fin 0 \<or> m = NaN"
  by (cases m) simp_all

lemma vehicle_multiplier_cases:
  "vehicle_multiplier p vt =
     (case map_of (vehicle_multipliers p) (toLowerCase vt) of
        None \<Rightarrow> Fin 1
      | Some m \<Rightarrow> if m = Fin 0 \<or> m = NaN then Fin 1 else m)"
  by (simp add: vehicle_multiplier_def num_falsy_iff split: option.splits)

lemma foldl_map_snd: "foldl (\<lambda>acc d. g acc (h d)) z xs = foldl g z (map h xs)"
  by (induction xs arbitrary: z) simp_all

lemma addon_total_columns:
  "addon_total (select_addons as ids vt) =
     foldl js_add (Fin 0)
       (map (\<lambda>a. if toLowerCase vt = ''commercial'' then addon_commercial_price a
                  else if toLowerCase vt = ''suv'' then addon_suv_price a
                  else addon_sedan_price a)
          (case ids of
             None \<Rightarrow> []
           | Some is \<Rightarrow> filter (\<lambda>a. addon_id a \<in> set is \<and> addon_is_active a) as))"
  by (simp add: addon_total_def select_addons_def foldl_map_snd addon_price_def Let_def o_def
      split: option.splits)

lemma hex_of_byte_digits:
  "hex_of_byte b =
     [''0123456789abcdef'' ! (unat b div 16), ''0123456789abcdef'' ! (unat b mod 16)]"
proof -
  have "unat b < 256" using unsigned_less [of b, where 'a = nat] by simp
  then have "unat b div 16 < 16" by simp
  then show ?thesis by (simp add: hex_of_byte_def hex_digit_def)
qed

lemma generatePaymentToken_digits:
  "generatePaymentToken src =
     concat (map (\<lambda>i. [''0123456789abcdef'' ! (unat (src i) div 16),
                        ''0123456789abcdef'' ! (unat (src i) mod 16)]) [0..<6])"
  unfolding generatePaymentToken_def randomBytes_def toString_hex_def map_map o_def
    hex_of_byte_digits ..

lemma create_booking_no_failure:
  assumes "lookup_price db rq = Inr (name, price)"
  shows "\<exists>res. snd (snd (create_booking db env now no_failure src rq)) = Success 201 res"
  using assms
  by (simp add: create_booking_def store_booking_def Let_def no_failure_def list_ex_iff)

text \<open>
  C2.  When POST /api/bookings succeeds, one booking row is added.  Its \<open>total_amount\<close>
  is the price looked up plus the sum of the prices of the active add-ons among the ids
  supplied.  The price is that of the first service with the given id: \<open>sedan_price\<close>
  for a sedan, \<open>suv_price\<close> for an SUV, \<open>truck_price\<close> for every other vehicle type;
  or, when no service id is given, the \<open>base_price\<close> of the first package with the
  given id times its multiplier for the vehicle type, 1.0 when the multiplier is
  missing, zero or NaN.  An add-on counts with its \<open>commercial_price\<close> for a commercial
  vehicle, its \<open>suv_price\<close> for an SUV and its \<open>sedan_price\<close> for every other type.  The
  \<open>deposit_amount\<close> is the total times the deposit percentage: the settings row, else the
  environment variable, else 0.25.  The \<open>payment_token\<close> is the print of six bytes read
  from the entropy source for this request, two hexadecimal digits for each: twelve
  characters, all hexadecimal digits.  The vehicle type is compared in lower case.
\<close>

theorem booking_amounts:
  assumes "create_booking db env now fails src rq = (db', sent, Success st res)"
  shows "\<exists>row price chosen.
           bookings db' = bookings db @ [row] \<and> bc_booking res = row \<and> st = 201 \<and>
           ((\<exists>s ss. serviceId rq \<noteq> None \<and> serviceId rq \<noteq> Some 0 \<and>
                filter (\<lambda>s. Some (svc_id s) = serviceId rq) (services db) = s # ss \<and>
                price =
                  (if toLowerCase (vehicleType rq) = ''sedan'' then svc_sedan_price s
                   else if toLowerCase (vehicleType rq) = ''suv'' then svc_suv_price s
                   else svc_truck_price s)) \<or>
            (\<exists>p ps. (serviceId rq = None \<or> serviceId rq = Some 0) \<and>
                packageId rq \<noteq> None \<and> packageId rq \<noteq> Some 0 \<and>
                filter (\<lambda>p. Some (pkg_id p) = packageId rq) (packages db) = p # ps \<and>
                price =
                  js_mul (base_price p)
                    (case map_of (vehicle_multipliers p) (toLowerCase (vehicleType rq)) of
                       None \<Rightarrow> Fin 1
                     | Some m \<Rightarrow> if m = Fin 0 \<or> m = NaN then Fin 1 else m))) \<and>
           chosen =
             (case addonIds rq of
                None \<Rightarrow> []
              | Some ids \<Rightarrow> filter (\<lambda>a. addon_id a \<in> set ids \<and> addon_is_active a) (addons db)) \<and>
           total_amount row =
             js_add price
               (foldl js_add (Fin 0)
                  (map (\<lambda>a. if toLowerCase (vehicleType rq) = ''commercial''
                             then addon_commercial_price a
                             else if toLowerCase (vehicleType rq) = ''suv''
                             then addon_suv_price a
                             else addon_sedan_price a) chosen)) \<and>
           deposit_amount row =
             js_mul (total_amount row)
               (case filter (\<lambda>kv. fst kv = ''deposit_percentage'') (settings db) of
                  kv # _ \<Rightarrow> snd kv
                | [] \<Rightarrow> (case DEPOSIT_PERCENTAGE env of None \<Rightarrow> Fin (1 / 4) | Some v \<Rightarrow> v)) \<and>
           payment_token row =
             concat (map (\<lambda>i. [''0123456789abcdef'' ! (unat (src i) div 16),
                                ''0123456789abcdef'' ! (unat (src i) mod 16)]) [0..<6]) \<and>
           length (payment_token row) = 12 \<and>
           set (payment_token row) \<subseteq> set ''0123456789abcdef''"
proof -
  from create_booking_success [OF assms] obtain name price row where
    lp: "lookup_price db rq = Inr (name, price)" and
    row: "bookings db' = bookings db @ [row]" "bc_booking res = row" "st = 201" and
    tot: "total_amount row =
             js_add price (addon_total (select_addons (addons db) (addonIds rq) (vehicleType rq)))" and
    dep: "deposit_amount row = js_mul (total_amount row) (deposit_percentage db env)" and
    tok: "payment_token row = generatePaymentToken src"
    by blast
  have price:
    "(\<exists>s ss. serviceId rq \<noteq> None \<and> serviceId rq \<noteq> Some 0 \<and>
                filter (\<lambda>s. Some (svc_id s) = serviceId rq) (services db) = s # ss \<and>
                price =
                  (if toLowerCase (vehicleType rq) = ''sedan'' then svc_sedan_price s
                   else if toLowerCase (vehicleType rq) = ''suv'' then svc_suv_price s
                   else svc_truck_price s)) \<or>
            (\<exists>p ps. (serviceId rq = None \<or> serviceId rq = Some 0) \<and>
                packageId rq \<noteq> None \<and> packageId rq \<noteq> Some 0 \<and>
                filter (\<lambda>p. Some (pkg_id p) = packageId rq) (packages db) = p # ps \<and>
                price =
                  js_mul (base_price p)
                    (case map_of (vehicle_multipliers p) (toLowerCase (vehicleType rq)) of
                       None \<Rightarrow> Fin 1
                     | Some m \<Rightarrow> if m = Fin 0 \<or> m = NaN then Fin 1 else m))"
  proof (cases "serviceId rq \<noteq> None \<and> serviceId rq \<noteq> Some 0")
    case True
    show ?thesis
    proof (cases "filter (\<lambda>s. Some (svc_id s) = serviceId rq) (services db)")
      case Nil
      with lp True show ?thesis by (auto simp: lookup_price_def)
    next
      case (Cons s ss)
      with lp True have "price = service_price s (vehicleType rq)"
        by (auto simp: lookup_price_def)
      then have "price =
                  (if toLowerCase (vehicleType rq) = ''sedan'' then svc_sedan_price s
                   else if toLowerCase (vehicleType rq) = ''suv'' then svc_suv_price s
                   else svc_truck_price s)"
        by (simp only: service_price_def Let_def)
      with True Cons have "\<exists>s ss. serviceId rq \<noteq> None \<and> serviceId rq \<noteq> Some 0 \<and>
                filter (\<lambda>s. Some (svc_id s) = serviceId rq) (services db) = s # ss \<and>
                price =
                  (if toLowerCase (vehicleType rq) = ''sedan'' then svc_sedan_price s
                   else if toLowerCase (vehicleType rq) = ''suv'' then svc_suv_price s
                   else svc_truck_price s)"
        by (intro exI conjI) simp_all
      then show ?thesis by (rule disjI1)
    qed
  next
    case False
    show ?thesis
    proof (cases "packageId rq \<noteq> None \<and> packageId rq \<noteq> Some 0")
      case no: False
      with lp False show ?thesis by (auto simp: lookup_price_def)
    next
      case True
      show ?thesis
      proof (cases "filter (\<lambda>p. Some (pkg_id p) = packageId rq) (packages db)")
        case Nil
        with lp False True show ?thesis by (auto simp: lookup_price_def)
      next
        case (Cons p ps)
        with lp False True have "price = package_price p (vehicleType rq)"
          by (auto simp: lookup_price_def)
        then have "price =
                  js_mul (base_price p)
                    (case map_of (vehicle_multipliers p) (toLowerCase (vehicleType rq)) of
                       None \<Rightarrow> Fin 1
                     | Some m \<Rightarrow> if m = Fin 0 \<or> m = NaN then Fin 1 else m)"
          by (simp only: package_price_def vehicle_multiplier_cases)
        with False True Cons have "\<exists>p ps. (serviceId rq = None \<or> serviceId rq = Some 0) \<and>
                packageId rq \<noteq> None \<and> packageId rq \<noteq> Some 0 \<and>
                filter (\<lambda>p. Some (pkg_id p) = packageId rq) (packages db) = p # ps \<and>
                price =
                  js_mul (base_price p)
                    (case map_of (vehicle_multipliers p) (toLowerCase (vehicleType rq)) of
                       None \<Rightarrow> Fin 1
                     | Some m \<Rightarrow> if m = Fin 0 \<or> m = NaN then Fin 1 else m)"
          by (intro exI conjI) simp_all
        then show ?thesis by (rule disjI2)
      qed
    qed
  qed
  from tot have tot': "total_amount row =
             js_add price
               (foldl js_add (Fin 0)
                  (map (\<lambda>a. if toLowerCase (vehicleType rq) = ''commercial''
                             then addon_commercial_price a
                             else if toLowerCase (vehicleType rq) = ''suv''
                             then addon_suv_price a
                             else addon_sedan_price a)
                     (case addonIds rq of
                        None \<Rightarrow> []
                      | Some ids \<Rightarrow>
                          filter (\<lambda>a. addon_id a \<in> set ids \<and> addon_is_active a) (addons db))))"
    by (simp only: addon_total_columns)
  from tok have tok': "payment_token row =
             concat (map (\<lambda>i. [''0123456789abcdef'' ! (unat (src i) div 16),
                                ''0123456789abcdef'' ! (unat (src i) mod 16)]) [0..<6])"
    by (simp only: generatePaymentToken_digits)
  from generatePaymentToken_hex [of src] have hex:
    "length (payment_token row) = 12" "set (payment_token row) \<subseteq> set ''0123456789abcdef''"
    unfolding tok by blast+
  from dep have dep': "deposit_amount row =
             js_mul (total_amount row)
               (case filter (\<lambda>kv. fst kv = ''deposit_percentage'') (settings db) of
                  kv # _ \<Rightarrow> snd kv
                | [] \<Rightarrow> (case DEPOSIT_PERCENTAGE env of None \<Rightarrow> Fin (1 / 4) | Some v \<Rightarrow> v))"
    by (simp add: deposit_percentage_def split: list.splits)
  show ?thesis
    apply (rule exI [of _ row], rule exI [of _ price], rule exI)
    apply (intro conjI)
                apply (rule row(1), rule row(2), rule row(3), rule price, rule refl,
        rule tot', rule dep', rule tok', rule hex(1), rule hex(2))
    done
qed

text \<open>
  The theorem on seven bookings, next to the booking of 100 that the shop holds:
  an SUV, a sedan, a commercial vehicle and a truck booked for the full detail
  (180, 150, 200, 200) with wax (25, 20, 40, 20) and an inactive add-on, the service
  taking precedence over a package that is also named; and the package of 100 for an
  SUV (times 1.5), a truck (multiplier 0, so 1.0) and a sedan (no multiplier).  The
  deposit is a quarter by default, an eighth from the environment, a half from the
  settings row, which takes precedence.
\<close>

theorem booking_amounts_witness:
  "map (\<lambda>b. (total_amount b, deposit_amount b, payment_token b))
     (bookings (fst (create_booking garage plain_env 50 no_failure counting_source suv_request))) =
     [(Fin 100, Fin 25, ''00a1b2c3d4e5''), (Fin 205, Fin (205 / 4), ''0a2f54799ec3'')] \<and>
   map (\<lambda>b. (total_amount b, deposit_amount b))
     (bookings (fst (create_booking garage eighth_env 50 no_failure counting_source sedan_request))) =
     [(Fin 100, Fin 25), (Fin 170, Fin (85 / 4))] \<and>
   map (\<lambda>b. (total_amount b, deposit_amount b))
     (bookings (fst (create_booking depot eighth_env 50 no_failure counting_source commercial_request))) =
     [(Fin 100, Fin 25), (Fin 240, Fin (120))] \<and>
   map (\<lambda>b. (total_amount b, deposit_amount b))
     (bookings (fst (create_booking garage plain_env 50 no_failure counting_source truck_request))) =
     [(Fin 100, Fin 25), (Fin 220, Fin (55))] \<and>
   map (\<lambda>b. (total_amount b, deposit_amount b))
     (bookings (fst (create_booking depot plain_env 50 no_failure counting_source (package_request ''SUV'')))) =
     [(Fin 100, Fin 25), (Fin 150, Fin (75))] \<and>
   map (\<lambda>b. (total_amount b, deposit_amount b))
     (bookings (fst (create_booking depot plain_env 50 no_failure counting_source (package_request ''truck'')))) =
     [(Fin 100, Fin 25), (Fin 100, Fin (50))] \<and>
   map (\<lambda>b. (total_amount b, deposit_amount b))
     (bookings (fst (create_booking depot plain_env 50 no_failure counting_source (package_request ''sedan'')))) =
     [(Fin 100, Fin 25), (Fin 100, Fin (50))]"
proof -
  have cols: "svc_sedan_price full_detail = Fin 150" "svc_suv_price full_detail = Fin 180"
    "svc_truck_price full_detail = Fin 200" "addon_sedan_price wax = Fin 20"
    "addon_suv_price wax = Fin 25" "addon_commercial_price wax = Fin 40"
    "base_price two_step = Fin 100"
    by (simp_all add: full_detail_def wax_def two_step_def)
  have token: "concat (map (\<lambda>i. [''0123456789abcdef'' ! (unat (counting_source i) div 16),
                      ''0123456789abcdef'' ! (unat (counting_source i) mod 16)]) [0..<6]) =
      ''0a2f54799ec3''"
    by (simp add: counting_source_def upt_rec)
  have A: "map (\<lambda>b. (total_amount b, deposit_amount b, payment_token b))
     (bookings (fst (create_booking garage plain_env 50 no_failure counting_source suv_request))) =
     [(Fin 100, Fin 25, ''00a1b2c3d4e5''), (Fin 205, Fin (205 / 4), ''0a2f54799ec3'')]"
  proof -
    let ?rq = "suv_request"
    let ?out = "create_booking garage plain_env 50 no_failure counting_source ?rq"
    have lp: "lookup_price garage ?rq = Inr (''Full Detail'', Fin 180)" by code_simp
    from create_booking_no_failure [OF lp, where env = plain_env and now = 50
        and src = counting_source]
    obtain res where "snd (snd ?out) = Success 201 res" ..
    then have out: "?out = (fst ?out, fst (snd ?out), Success 201 res)"
      by (metis prod.collapse)
    have lc: "toLowerCase (vehicleType ?rq) = ''suv''" by code_simp
    have ids: "serviceId ?rq = Some 1" "packageId ?rq = None"
      by code_simp+
    have fs: "filter (\<lambda>s. Some (svc_id s) = serviceId ?rq) (services garage) = [full_detail]"
      "filter (\<lambda>p. Some (pkg_id p) = packageId ?rq) (packages garage) = []"
      by code_simp+
    have ch: "(case addonIds ?rq of None \<Rightarrow> []
               | Some ids \<Rightarrow> filter (\<lambda>a. addon_id a \<in> set ids \<and> addon_is_active a)
                   (addons garage)) = [wax]"
      by code_simp
    have pc: "(case filter (\<lambda>kv. fst kv = ''deposit_percentage'') (settings garage) of
                  kv # _ \<Rightarrow> snd kv
                | [] \<Rightarrow> (case DEPOSIT_PERCENTAGE plain_env of None \<Rightarrow> Fin (1 / 4) | Some v \<Rightarrow> v)) =
              Fin (1 / 4)"
      by code_simp
    have old: "map (\<lambda>b. (total_amount b, deposit_amount b, payment_token b)) (bookings garage) =
         [(Fin 100, Fin 25, ''00a1b2c3d4e5'')]"
      by code_simp
    from booking_amounts [OF out] obtain row price chosen where
      r: "bookings (fst ?out) = bookings garage @ [row]" and
      p: "(\<exists>s ss. serviceId ?rq \<noteq> None \<and> serviceId ?rq \<noteq> Some 0 \<and>
                filter (\<lambda>s. Some (svc_id s) = serviceId ?rq) (services garage) = s # ss \<and>
                price =
                  (if toLowerCase (vehicleType ?rq) = ''sedan'' then svc_sedan_price s
                   else if toLowerCase (vehicleType ?rq) = ''suv'' then svc_suv_price s
                   else svc_truck_price s)) \<or>
            (\<exists>p ps. (serviceId ?rq = None \<or> serviceId ?rq = Some 0) \<and>
                packageId ?rq \<noteq> None \<and> packageId ?rq \<noteq> Some 0 \<and>
                filter (\<lambda>p. Some (pkg_id p) = packageId ?rq) (packages garage) = p # ps \<and>
                price =
                  js_mul (base_price p)
                    (case map_of (vehicle_multipliers p) (toLowerCase (vehicleType ?rq)) of
                       None \<Rightarrow> Fin 1
                     | Some m \<Rightarrow> if m = Fin 0 \<or> m = NaN then Fin 1 else m))" and
      c: "chosen = (case addonIds ?rq of None \<Rightarrow> []
               | Some ids \<Rightarrow> filter (\<lambda>a. addon_id a \<in> set ids \<and> addon_is_active a)
                   (addons garage))" and
      t: "total_amount row =
             js_add price
               (foldl js_add (Fin 0)
                  (map (\<lambda>a. if toLowerCase (vehicleType ?rq) = ''commercial''
                             then addon_commercial_price a
                             else if toLowerCase (vehicleType ?rq) = ''suv''
                             then addon_suv_price a
                             else addon_sedan_price a) chosen))" and
      d: "deposit_amount row =
             js_mul (total_amount row)
               (case filter (\<lambda>kv. fst kv = ''deposit_percentage'') (settings garage) of
                  kv # _ \<Rightarrow> snd kv
                | [] \<Rightarrow> (case DEPOSIT_PERCENTAGE plain_env of None \<Rightarrow> Fin (1 / 4) | Some v \<Rightarrow> v))" and
      k: "payment_token row =
             concat (map (\<lambda>i. [''0123456789abcdef'' ! (unat (counting_source i) div 16),
                                ''0123456789abcdef'' ! (unat (counting_source i) mod 16)]) [0..<6])"
      by blast
    from p [unfolded fs] have price: "price = Fin 180"
      unfolding ids lc by (simp add: cols)
    from t have total: "total_amount row = Fin 205"
      unfolding c ch lc by (simp add: cols price)
    from d have dep: "deposit_amount row = Fin (205 / 4)"
      unfolding pc total by simp
    from k have tok: "payment_token row = ''0a2f54799ec3''" by (simp only: token)
    show ?thesis by (simp only: r map_append old list.map total dep tok append.simps)
  qed
  have B: "map (\<lambda>b. (total_amount b, deposit_amount b))
     (bookings (fst (create_booking garage eighth_env 50 no_failure counting_source sedan_request))) =
     [(Fin 100, Fin 25), (Fin 170, Fin (85 / 4))]"
  proof -
    let ?rq = "sedan_request"
    let ?out = "create_booking garage eighth_env 50 no_failure counting_source ?rq"
    have lp: "lookup_price garage ?rq = Inr (''Full Detail'', Fin 150)" by code_simp
    from create_booking_no_failure [OF lp, where env = eighth_env and now = 50
        and src = counting_source]
    obtain res where "snd (snd ?out) = Success 201 res" ..
    then have out: "?out = (fst ?out, fst (snd ?out), Success 201 res)"
      by (metis prod.collapse)
    have lc: "toLowerCase (vehicleType ?rq) = ''sedan''" by code_simp
    have ids: "serviceId ?rq = Some 1" "packageId ?rq = Some 2"
      by code_simp+
    have fs: "filter (\<lambda>s. Some (svc_id s) = serviceId ?rq) (services garage) = [full_detail]"
      "filter (\<lambda>p. Some (pkg_id p) = packageId ?rq) (packages garage) = []"
      by code_simp+
    have ch: "(case addonIds ?rq of None \<Rightarrow> []
               | Some ids \<Rightarrow> filter (\<lambda>a. addon_id a \<in> set ids \<and> addon_is_active a)
                   (addons garage)) = [wax]"
      by code_simp
    have pc: "(case filter (\<lambda>kv. fst kv = ''deposit_percentage'') (settings garage) of
                  kv # _ \<Rightarrow> snd kv
                | [] \<Rightarrow> (case DEPOSIT_PERCENTAGE eighth_env of None \<Rightarrow> Fin (1 / 4) | Some v \<Rightarrow> v)) =
              Fin (1 / 8)"
      by code_simp
    have old: "map (\<lambda>b. (total_amount b, deposit_amount b)) (bookings garage) =
         [(Fin 100, Fin 25)]"
      by code_simp
    from booking_amounts [OF out] obtain row price chosen where
      r: "bookings (fst ?out) = bookings garage @ [row]" and
      p: "(\<exists>s ss. serviceId ?rq \<noteq> None \<and> serviceId ?rq \<noteq> Some 0 \<and>
                filter (\<lambda>s. Some (svc_id s) = serviceId ?rq) (services garage) = s # ss \<and>
                price =
                  (if toLowerCase (vehicleType ?rq) = ''sedan'' then svc_sedan_price s
                   else if toLowerCase (vehicleType ?rq) = ''suv'' then svc_suv_price s
                   else svc_truck_price s)) \<or>
            (\<exists>p ps. (serviceId ?rq = None \<or> serviceId ?rq = Some 0) \<and>
                packageId ?rq \<noteq> None \<and> packageId ?rq \<noteq> Some 0 \<and>
                filter (\<lambda>p. Some (pkg_id p) = packageId ?rq) (packages garage) = p # ps \<and>
                price =
                  js_mul (base_price p)
                    (case map_of (vehicle_multipliers p) (toLowerCase (vehicleType ?rq)) of
                       None \<Rightarrow> Fin 1
                     | Some m \<Rightarrow> if m = Fin 0 \<or> m = NaN then Fin 1 else m))" and
      c: "chosen = (case addonIds ?rq of None \<Rightarrow> []
               | Some ids \<Rightarrow> filter (\<lambda>a. addon_id a \<in> set ids \<and> addon_is_active a)
                   (addons garage))" and
      t: "total_amount row =
             js_add price
               (foldl js_add (Fin 0)
                  (map (\<lambda>a. if toLowerCase (vehicleType ?rq) = ''commercial''
                             then addon_commercial_price a
                             else if toLowerCase (vehicleType ?rq) = ''suv''
                             then addon_suv_price a
                             else addon_sedan_price a) chosen))" and
      d: "deposit_amount row =
             js_mul (total_amount row)
               (case filter (\<lambda>kv. fst kv = ''deposit_percentage'') (settings garage) of
                  kv # _ \<Rightarrow> snd kv
                | [] \<Rightarrow> (case DEPOSIT_PERCENTAGE eighth_env of None \<Rightarrow> Fin (1 / 4) | Some v \<Rightarrow> v))" and
      k: "payment_token row =
             concat (map (\<lambda>i. [''0123456789abcdef'' ! (unat (counting_source i) div 16),
                                ''0123456789abcdef'' ! (unat (counting_source i) mod 16)]) [0..<6])"
      by blast
    from p [unfolded fs] have price: "price = Fin 150"
      unfolding ids lc by (simp add: cols)
    from t have total: "total_amount row = Fin 170"
      unfolding c ch lc by (simp add: cols price)
    from d have dep: "deposit_amount row = Fin (85 / 4)"
      unfolding pc total by simp
    show ?thesis by (simp only: r map_append old list.map total dep append.simps)
  qed
  have C: "map (\<lambda>b. (total_amount b, deposit_amount b))
     (bookings (fst (create_booking depot eighth_env 50 no_failure counting_source commercial_request))) =
     [(Fin 100, Fin 25), (Fin 240, Fin (120))]"
  proof -
    let ?rq = "commercial_request"
    let ?out = "create_booking depot eighth_env 50 no_failure counting_source ?rq"
    have lp: "lookup_price depot ?rq = Inr (''Full Detail'', Fin 200)" by code_simp
    from create_booking_no_failure [OF lp, where env = eighth_env and now = 50
        and src = counting_source]
    obtain res where "snd (snd ?out) = Success 201 res" ..
    then have out: "?out = (fst ?out, fst (snd ?out), Success 201 res)"
      by (metis prod.collapse)
    have lc: "toLowerCase (vehicleType ?rq) = ''commercial''" by code_simp
    have ids: "serviceId ?rq = Some 1" "packageId ?rq = None"
      by code_simp+
    have fs: "filter (\<lambda>s. Some (svc_id s) = serviceId ?rq) (services depot) = [full_detail]"
      "filter (\<lambda>p. Some (pkg_id p) = packageId ?rq) (packages depot) = []"
      by code_simp+
    have ch: "(case addonIds ?rq of None \<Rightarrow> []
               | Some ids \<Rightarrow> filter (\<lambda>a. addon_id a \<in> set ids \<and> addon_is_active a)
                   (addons depot)) = [wax]"
      by code_simp
    have pc: "(case filter (\<lambda>kv. fst kv = ''deposit_percentage'') (settings depot) of
                  kv # _ \<Rightarrow> snd kv
                | [] \<Rightarrow> (case DEPOSIT_PERCENTAGE eighth_env of None \<Rightarrow> Fin (1 / 4) | Some v \<Rightarrow> v)) =
              Fin (1 / 2)"
      by code_simp
    have old: "map (\<lambda>b. (total_amount b, deposit_amount b)) (bookings depot) =
         [(Fin 100, Fin 25)]"
      by code_simp
    from booking_amounts [OF out] obtain row price chosen where
      r: "bookings (fst ?out) = bookings depot @ [row]" and
      p: "(\<exists>s ss. serviceId ?rq \<noteq> None \<and> serviceId ?rq \<noteq> Some 0 \<and>
                filter (\<lambda>s. Some (svc_id s) = serviceId ?rq) (services depot) = s # ss \<and>
                price =
                  (if toLowerCase (vehicleType ?rq) = ''sedan'' then svc_sedan_price s
                   else if toLowerCase (vehicleType ?rq) = ''suv'' then svc_suv_price s
                   else svc_truck_price s)) \<or>
            (\<exists>p ps. (serviceId ?rq = None \<or> serviceId ?rq = Some 0) \<and>
                packageId ?rq \<noteq> None \<and> packageId ?rq \<noteq> Some 0 \<and>
                filter (\<lambda>p. Some (pkg_id p) = packageId ?rq) (packages depot) = p # ps \<and>
                price =
                  js_mul (base_price p)
                    (case map_of (vehicle_multipliers p) (toLowerCase (vehicleType ?rq)) of
                       None \<Rightarrow> Fin 1
                     | Some m \<Rightarrow> if m = Fin 0 \<or> m = NaN then Fin 1 else m))" and
      c: "chosen = (case addonIds ?rq of None \<Rightarrow> []
               | Some ids \<Rightarrow> filter (\<lambda>a. addon_id a \<in> set ids \<and> addon_is_active a)
                   (addons depot))" and
      t: "total_amount row =
             js_add price
               (foldl js_add (Fin 0)
                  (map (\<lambda>a. if toLowerCase (vehicleType ?rq) = ''commercial''
                             then addon_commercial_price a
                             else if toLowerCase (vehicleType ?rq) = ''suv''
                             then addon_suv_price a
                             else addon_sedan_price a) chosen))" and
      d: "deposit_amount row =
             js_mul (total_amount row)
               (case filter (\<lambda>kv. fst kv = ''deposit_percentage'') (settings depot) of
                  kv # _ \<Rightarrow> snd kv
                | [] \<Rightarrow> (case DEPOSIT_PERCENTAGE eighth_env of None \<Rightarrow> Fin (1 / 4) | Some v \<Rightarrow> v))" and
      k: "payment_token row =
             concat (map (\<lambda>i. [''0123456789abcdef'' ! (unat (counting_source i) div 16),
                                ''0123456789abcdef'' ! (unat (counting_source i) mod 16)]) [0..<6])"
      by blast
    from p [unfolded fs] have price: "price = Fin 200"
      unfolding ids lc by (simp add: cols)
    from t have total: "total_amount row = Fin 240"
      unfolding c ch lc by (simp add: cols price)
    from d have dep: "deposit_amount row = Fin (120)"
      unfolding pc total by simp
    show ?thesis by (simp only: r map_append old list.map total dep append.simps)
  qed
  have D: "map (\<lambda>b. (total_amount b, deposit_amount b))
     (bookings (fst (create_booking garage plain_env 50 no_failure counting_source truck_request))) =
     [(Fin 100, Fin 25), (Fin 220, Fin (55))]"
  proof -
    let ?rq = "truck_request"
    let ?out = "create_booking garage plain_env 50 no_failure counting_source ?rq"
    have lp: "lookup_price garage ?rq = Inr (''Full Detail'', Fin 200)" by code_simp
    from create_booking_no_failure [OF lp, where env = plain_env and now = 50
        and src = counting_source]
    obtain res where "snd (snd ?out) = Success 201 res" ..
    then have out: "?out = (fst ?out, fst (snd ?out), Success 201 res)"
      by (metis prod.collapse)
    have lc: "toLowerCase (vehicleType ?rq) = ''truck''" by code_simp
    have ids: "serviceId ?rq = Some 1" "packageId ?rq = None"
      by code_simp+
    have fs: "filter (\<lambda>s. Some (svc_id s) = serviceId ?rq) (services garage) = [full_detail]"
      "filter (\<lambda>p. Some (pkg_id p) = packageId ?rq) (packages garage) = []"
      by code_simp+
    have ch: "(case addonIds ?rq of None \<Rightarrow> []
               | Some ids \<Rightarrow> filter (\<lambda>a. addon_id a \<in> set ids \<and> addon_is_active a)
                   (addons garage)) = [wax]"
      by code_simp
    have pc: "(case filter (\<lambda>kv. fst kv = ''deposit_percentage'') (settings garage) of
                  kv # _ \<Rightarrow> snd kv
                | [] \<Rightarrow> (case DEPOSIT_PERCENTAGE plain_env of None \<Rightarrow> Fin (1 / 4) | Some v \<Rightarrow> v)) =
              Fin (1 / 4)"
      by code_simp
    have old: "map (\<lambda>b. (total_amount b, deposit_amount b)) (bookings garage) =
         [(Fin 100, Fin 25)]"
      by code_simp
    from booking_amounts [OF out] obtain row price chosen where
      r: "bookings (fst ?out) = bookings garage @ [row]" and
      p: "(\<exists>s ss. serviceId ?rq \<noteq> None \<and> serviceId ?rq \<noteq> Some 0 \<and>
                filter (\<lambda>s. Some (svc_id s) = serviceId ?rq) (services garage) = s # ss \<and>
                price =
                  (if toLowerCase (vehicleType ?rq) = ''sedan'' then svc_sedan_price s
                   else if toLowerCase (vehicleType ?rq) = ''suv'' then svc_suv_price s
                   else svc_truck_price s)) \<or>
            (\<exists>p ps. (serviceId ?rq = None \<or> serviceId ?rq = Some 0) \<and>
                packageId ?rq \<noteq> None \<and> packageId ?rq \<noteq> Some 0 \<and>
                filter (\<lambda>p. Some (pkg_id p) = packageId ?rq) (packages garage) = p # ps \<and>
                price =
                  js_mul (base_price p)
                    (case map_of (vehicle_multipliers p) (toLowerCase (vehicleType ?rq)) of
                       None \<Rightarrow> Fin 1
                     | Some m \<Rightarrow> if m = Fin 0 \<or> m = NaN then Fin 1 else m))" and
      c: "chosen = (case addonIds ?rq of None \<Rightarrow> []
               | Some ids \<Rightarrow> filter (\<lambda>a. addon_id a \<in> set ids \<and> addon_is_active a)
                   (addons garage))" and
      t: "total_amount row =
             js_add price
               (foldl js_add (Fin 0)
                  (map (\<lambda>a. if toLowerCase (vehicleType ?rq) = ''commercial''
                             then addon_commercial_price a
                             else if toLowerCase (vehicleType ?rq) = ''suv''
                             then addon_suv_price a
                             else addon_sedan_price a) chosen))" and
      d: "deposit_amount row =
             js_mul (total_amount row)
               (case filter (\<lambda>kv. fst kv = ''deposit_percentage'') (settings garage) of
                  kv # _ \<Rightarrow> snd kv
                | [] \<Rightarrow> (case DEPOSIT_PERCENTAGE plain_env of None \<Rightarrow> Fin (1 / 4) | Some v \<Rightarrow> v))" and
      k: "payment_token row =
             concat (map (\<lambda>i. [''0123456789abcdef'' ! (unat (counting_source i) div 16),
                                ''0123456789abcdef'' ! (unat (counting_source i) mod 16)]) [0..<6])"
      by blast
    from p [unfolded fs] have price: "price = Fin 200"
      unfolding ids lc by (simp add: cols)
    from t have total: "total_amount row = Fin 220"
      unfolding c ch lc by (simp add: cols price)
    from d have dep: "deposit_amount row = Fin (55)"
      unfolding pc total by simp
    show ?thesis by (simp only: r map_append old list.map total dep append.simps)
  qed
  have E: "map (\<lambda>b. (total_amount b, deposit_amount b))
     (bookings (fst (create_booking depot plain_env 50 no_failure counting_source (package_request ''SUV'')))) =
     [(Fin 100, Fin 25), (Fin 150, Fin (75))]"
  proof -
    let ?rq = "package_request ''SUV''"
    let ?out = "create_booking depot plain_env 50 no_failure counting_source ?rq"
    have lp: "lookup_price depot ?rq = Inr (''Two Step'', Fin 150)" by code_simp
    from create_booking_no_failure [OF lp, where env = plain_env and now = 50
        and src = counting_source]
    obtain res where "snd (snd ?out) = Success 201 res" ..
    then have out: "?out = (fst ?out, fst (snd ?out), Success 201 res)"
      by (metis prod.collapse)
    have lc: "toLowerCase (vehicleType ?rq) = ''suv''" by code_simp
    have ids: "serviceId ?rq = None" "packageId ?rq = Some 2"
      by code_simp+
    have fs: "filter (\<lambda>s. Some (svc_id s) = serviceId ?rq) (services depot) = []"
      "filter (\<lambda>p. Some (pkg_id p) = packageId ?rq) (packages depot) = [two_step]"
      by code_simp+
    have mo: "(case map_of (vehicle_multipliers two_step) (toLowerCase (vehicleType ?rq)) of
                 None \<Rightarrow> Fin 1
               | Some m \<Rightarrow> if m = Fin 0 \<or> m = NaN then Fin 1 else m) = Fin (3 / 2)"
      by code_simp
    have ch: "(case addonIds ?rq of None \<Rightarrow> []
               | Some ids \<Rightarrow> filter (\<lambda>a. addon_id a \<in> set ids \<and> addon_is_active a)
                   (addons depot)) = []"
      by code_simp
    have pc: "(case filter (\<lambda>kv. fst kv = ''deposit_percentage'') (settings depot) of
                  kv # _ \<Rightarrow> snd kv
                | [] \<Rightarrow> (case DEPOSIT_PERCENTAGE plain_env of None \<Rightarrow> Fin (1 / 4) | Some v \<Rightarrow> v)) =
              Fin (1 / 2)"
      by code_simp
    have old: "map (\<lambda>b. (total_amount b, deposit_amount b)) (bookings depot) =
         [(Fin 100, Fin 25)]"
      by code_simp
    from booking_amounts [OF out] obtain row price chosen where
      r: "bookings (fst ?out) = bookings depot @ [row]" and
      p: "(\<exists>s ss. serviceId ?rq \<noteq> None \<and> serviceId ?rq \<noteq> Some 0 \<and>
                filter (\<lambda>s. Some (svc_id s) = serviceId ?rq) (services depot) = s # ss \<and>
                price =
                  (if toLowerCase (vehicleType ?rq) = ''sedan'' then svc_sedan_price s
                   else if toLowerCase (vehicleType ?rq) = ''suv'' then svc_suv_price s
                   else svc_truck_price s)) \<or>
            (\<exists>p ps. (serviceId ?rq = None \<or> serviceId ?rq = Some 0) \<and>
                packageId ?rq \<noteq> None \<and> packageId ?rq \<noteq> Some 0 \<and>
                filter (\<lambda>p. Some (pkg_id p) = packageId ?rq) (packages depot) = p # ps \<and>
                price =
                  js_mul (base_price p)
                    (case map_of (vehicle_multipliers p) (toLowerCase (vehicleType ?rq)) of
                       None \<Rightarrow> Fin 1
                     | Some m \<Rightarrow> if m = Fin 0 \<or> m = NaN then Fin 1 else m))" and
      c: "chosen = (case addonIds ?rq of None \<Rightarrow> []
               | Some ids \<Rightarrow> filter (\<lambda>a. addon_id a \<in> set ids \<and> addon_is_active a)
                   (addons depot))" and
      t: "total_amount row =
             js_add price
               (foldl js_add (Fin 0)
                  (map (\<lambda>a. if toLowerCase (vehicleType ?rq) = ''commercial''
                             then addon_commercial_price a
                             else if toLowerCase (vehicleType ?rq) = ''suv''
                             then addon_suv_price a
                             else addon_sedan_price a) chosen))" and
      d: "deposit_amount row =
             js_mul (total_amount row)
               (case filter (\<lambda>kv. fst kv = ''deposit_percentage'') (settings depot) of
                  kv # _ \<Rightarrow> snd kv
                | [] \<Rightarrow> (case DEPOSIT_PERCENTAGE plain_env of None \<Rightarrow> Fin (1 / 4) | Some v \<Rightarrow> v))" and
      k: "payment_token row =
             concat (map (\<lambda>i. [''0123456789abcdef'' ! (unat (counting_source i) div 16),
                                ''0123456789abcdef'' ! (unat (counting_source i) mod 16)]) [0..<6])"
      by blast
    from p [unfolded fs] have price: "price = Fin 150"
      unfolding ids lc by (simp add: cols mo mo [unfolded lc])
    from t have total: "total_amount row = Fin 150"
      unfolding c ch lc by (simp add: cols price)
    from d have dep: "deposit_amount row = Fin (75)"
      unfolding pc total by simp
    show ?thesis by (simp only: r map_append old list.map total dep append.simps)
  qed
  have F: "map (\<lambda>b. (total_amount b, deposit_amount b))
     (bookings (fst (create_booking depot plain_env 50 no_failure counting_source (package_request ''truck'')))) =
     [(Fin 100, Fin 25), (Fin 100, Fin (50))]"
  proof -
    let ?rq = "package_request ''truck''"
    let ?out = "create_booking depot plain_env 50 no_failure counting_source ?rq"
    have lp: "lookup_price depot ?rq = Inr (''Two Step'', Fin 100)" by code_simp
    from create_booking_no_failure [OF lp, where env = plain_env and now = 50
        and src = counting_source]
    obtain res where "snd (snd ?out) = Success 201 res" ..
    then have out: "?out = (fst ?out, fst (snd ?out), Success 201 res)"
      by (metis prod.collapse)
    have lc: "toLowerCase (vehicleType ?rq) = ''truck''" by code_simp
    have ids: "serviceId ?rq = None" "packageId ?rq = Some 2"
      by code_simp+
    have fs: "filter (\<lambda>s. Some (svc_id s) = serviceId ?rq) (services depot) = []"
      "filter (\<lambda>p. Some (pkg_id p) = packageId ?rq) (packages depot) = [two_step]"
      by code_simp+
    have mo: "(case map_of (vehicle_multipliers two_step) (toLowerCase (vehicleType ?rq)) of
                 None \<Rightarrow> Fin 1
               | Some m \<Rightarrow> if m = Fin 0 \<or> m = NaN then Fin 1 else m) = Fin (1)"
      by code_simp
    have ch: "(case addonIds ?rq of None \<Rightarrow> []
               | Some ids \<Rightarrow> filter (\<lambda>a. addon_id a \<in> set ids \<and> addon_is_active a)
                   (addons depot)) = []"
      by code_simp
    have pc: "(case filter (\<lambda>kv. fst kv = ''deposit_percentage'') (settings depot) of
                  kv # _ \<Rightarrow> snd kv
                | [] \<Rightarrow> (case DEPOSIT_PERCENTAGE plain_env of None \<Rightarrow> Fin (1 / 4) | Some v \<Rightarrow> v)) =
              Fin (1 / 2)"
      by code_simp
    have old: "map (\<lambda>b. (total_amount b, deposit_amount b)) (bookings depot) =
         [(Fin 100, Fin 25)]"
      by code_simp
    from booking_amounts [OF out] obtain row price chosen where
      r: "bookings (fst ?out) = bookings depot @ [row]" and
      p: "(\<exists>s ss. serviceId ?rq \<noteq> None \<and> serviceId ?rq \<noteq> Some 0 \<and>
                filter (\<lambda>s. Some (svc_id s) = serviceId ?rq) (services depot) = s # ss \<and>
                price =
                  (if toLowerCase (vehicleType ?rq) = ''sedan'' then svc_sedan_price s
                   else if toLowerCase (vehicleType ?rq) = ''suv'' then svc_suv_price s
                   else svc_truck_price s)) \<or>
            (\<exists>p ps. (serviceId ?rq = None \<or> serviceId ?rq = Some 0) \<and>
                packageId ?rq \<noteq> None \<and> packageId ?rq \<noteq> Some 0 \<and>
                filter (\<lambda>p. Some (pkg_id p) = packageId ?rq) (packages depot) = p # ps \<and>
                price =
                  js_mul (base_price p)
                    (case map_of (vehicle_multipliers p) (toLowerCase (vehicleType ?rq)) of
                       None \<Rightarrow> Fin 1
                     | Some m \<Rightarrow> if m = Fin 0 \<or> m = NaN then Fin 1 else m))" and
      c: "chosen = (case addonIds ?rq of None \<Rightarrow> []
               | Some ids \<Rightarrow> filter (\<lambda>a. addon_id a \<in> set ids \<and> addon_is_active a)
                   (addons depot))" and
      t: "total_amount row =
             js_add price
               (foldl js_add (Fin 0)
                  (map (\<lambda>a. if toLowerCase (vehicleType ?rq) = ''commercial''
                             then addon_commercial_price a
                             else if toLowerCase (vehicleType ?rq) = ''suv''
                             then addon_suv_price a
                             else addon_sedan_price a) chosen))" and
      d: "deposit_amount row =
             js_mul (total_amount row)
               (case filter (\<lambda>kv. fst kv = ''deposit_percentage'') (settings depot) of
                  kv # _ \<Rightarrow> snd kv
                | [] \<Rightarrow> (case DEPOSIT_PERCENTAGE plain_env of None \<Rightarrow> Fin (1 / 4) | Some v \<Rightarrow> v))" and
      k: "payment_token row =
             concat (map (\<lambda>i. [''0123456789abcdef'' ! (unat (counting_source i) div 16),
                                ''0123456789abcdef'' ! (unat (counting_source i) mod 16)]) [0..<6])"
      by blast
    from p [unfolded fs] have price: "price = Fin 100"
      unfolding ids lc by (simp add: cols mo mo [unfolded lc])
    from t have total: "total_amount row = Fin 100"
      unfolding c ch lc by (simp add: cols price)
    from d have dep: "deposit_amount row = Fin (50)"
      unfolding pc total by simp
    show ?thesis by (simp only: r map_append old list.map total dep append.simps)
  qed
  have G: "map (\<lambda>b. (total_amount b, deposit_amount b))
     (bookings (fst (create_booking depot plain_env 50 no_failure counting_source (package_request ''sedan'')))) =
     [(Fin 100, Fin 25), (Fin 100, Fin (50))]"
  proof -
    let ?rq = "package_request ''sedan''"
    let ?out = "create_booking depot plain_env 50 no_failure counting_source ?rq"
    have lp: "lookup_price depot ?rq = Inr (''Two Step'', Fin 100)" by code_simp
    from create_booking_no_failure [OF lp, where env = plain_env and now = 50
        and src = counting_source]
    obtain res where "snd (snd ?out) = Success 201 res" ..
    then have out: "?out = (fst ?out, fst (snd ?out), Success 201 res)"
      by (metis prod.collapse)
    have lc: "toLowerCase (vehicleType ?rq) = ''sedan''" by code_simp
    have ids: "serviceId ?rq = None" "packageId ?rq = Some 2"
      by code_simp+
    have fs: "filter (\<lambda>s. Some (svc_id s) = serviceId ?rq) (services depot) = []"
      "filter (\<lambda>p. Some (pkg_id p) = packageId ?rq) (packages depot) = [two_step]"
      by code_simp+
    have mo: "(case map_of (vehicle_multipliers two_step) (toLowerCase (vehicleType ?rq)) of
                 None \<Rightarrow> Fin 1
               | Some m \<Rightarrow> if m = Fin 0 \<or> m = NaN then Fin 1 else m) = Fin (1)"
      by code_simp
    have ch: "(case addonIds ?rq of None \<Rightarrow> []
               | Some ids \<Rightarrow> filter (\<lambda>a. addon_id a \<in> set ids \<and> addon_is_active a)
                   (addons depot)) = []"
      by code_simp
    have pc: "(case filter (\<lambda>kv. fst kv = ''deposit_percentage'') (settings depot) of
                  kv # _ \<Rightarrow> snd kv
                | [] \<Rightarrow> (case DEPOSIT_PERCENTAGE plain_env of None \<Rightarrow> Fin (1 / 4) | Some v \<Rightarrow> v)) =
              Fin (1 / 2)"
      by code_simp
    have old: "map (\<lambda>b. (total_amount b, deposit_amount b)) (bookings depot) =
         [(Fin 100, Fin 25)]"
      by code_simp
    from booking_amounts [OF out] obtain row price chosen where
      r: "bookings (fst ?out) = bookings depot @ [row]" and
      p: "(\<exists>s ss. serviceId ?rq \<noteq> None \<and> serviceId ?rq \<noteq> Some 0 \<and>
                filter (\<lambda>s. Some (svc_id s) = serviceId ?rq) (services depot) = s # ss \<and>
                price =
                  (if toLowerCase (vehicleType ?rq) = ''sedan'' then svc_sedan_price s
                   else if toLowerCase (vehicleType ?rq) = ''suv'' then svc_suv_price s
                   else svc_truck_price s)) \<or>
            (\<exists>p ps. (serviceId ?rq = None \<or> serviceId ?rq = Some 0) \<and>
                packageId ?rq \<noteq> None \<and> packageId ?rq \<noteq> Some 0 \<and>
                filter (\<lambda>p. Some (pkg_id p) = packageId ?rq) (packages depot) = p # ps \<and>
                price =
                  js_mul (base_price p)
                    (case map_of (vehicle_multipliers p) (toLowerCase (vehicleType ?rq)) of
                       None \<Rightarrow> Fin 1
                     | Some m \<Rightarrow> if m = Fin 0 \<or> m = NaN then Fin 1 else m))" and
      c: "chosen = (case addonIds ?rq of None \<Rightarrow> []
               | Some ids \<Rightarrow> filter (\<lambda>a. addon_id a \<in> set ids \<and> addon_is_active a)
                   (addons depot))" and
      t: "total_amount row =
             js_add price
               (foldl js_add (Fin 0)
                  (map (\<lambda>a. if toLowerCase (vehicleType ?rq) = ''commercial''
                             then addon_commercial_price a
                             else if toLowerCase (vehicleType ?rq) = ''suv''
                             then addon_suv_price a
                             else addon_sedan_price a) chosen))" and
      d: "deposit_amount row =
             js_mul (total_amount row)
               (case filter (\<lambda>kv. fst kv = ''deposit_percentage'') (settings depot) of
                  kv # _ \<Rightarrow> snd kv
                | [] \<Rightarrow> (case DEPOSIT_PERCENTAGE plain_env of None \<Rightarrow> Fin (1 / 4) | Some v \<Rightarrow> v))" and
      k: "payment_token row =
             concat (map (\<lambda>i. [''0123456789abcdef'' ! (unat (counting_source i) div 16),
                                ''0123456789abcdef'' ! (unat (counting_source i) mod 16)]) [0..<6])"
      by blast
    from p [unfolded fs] have price: "price = Fin 100"
      unfolding ids lc by (simp add: cols mo mo [unfolded lc])
    from t have total: "total_amount row = Fin 100"
      unfolding c ch lc by (simp add: cols price)
    from d have dep: "deposit_amount row = Fin (50)"
      unfolding pc total by simp
    show ?thesis by (simp only: r map_append old list.map total dep append.simps)
  qed
  show ?thesis
    by (intro conjI) (rule A, rule B, rule C, rule D, rule E, rule F, rule G)
qed

subsection \<open>The status of a booking\<close>

text \<open>
  C8.  A status outside pending, confirmed, in_progress, completed, cancelled (a string
  that is not one of the five, or a value that is not a string) is answered with 400
  "Invalid status" by PATCH /api/bookings/:id/status, and by PUT /api/bookings/:id when
  the body has a status at all, and the database is left as it was.  That answer is
  given to no status of the five.
\<close>

theorem invalid_status_rejected:
  "(st \<notin> JStr ` {''pending'', ''confirmed'', ''in_progress'', ''completed'', ''cancelled''} \<longrightarrow>
      update_booking_status db now fails bid st = (db, Failure 400 ''Invalid status'')) \<and>
   (u_status u \<noteq> JUndefined \<and>
    u_status u \<notin> JStr ` {''pending'', ''confirmed'', ''in_progress'', ''completed'', ''cancelled''} \<longrightarrow>
      update_booking db now fails bid u = (db, Failure 400 ''Invalid status'')) \<and>
   (snd (update_booking_status db now fails bid st) = Failure 400 ''Invalid status'' \<longrightarrow>
      st \<notin> JStr ` {''pending'', ''confirmed'', ''in_progress'', ''completed'', ''cancelled''}) \<and>
   (snd (update_booking db now fails bid u) = Failure 400 ''Invalid status'' \<longrightarrow>
      u_status u \<notin> JStr ` {''pending'', ''confirmed'', ''in_progress'', ''completed'', ''cancelled''})"
proof -
  have inc: "includes_status v \<longleftrightarrow>
      v \<in> JStr ` {''pending'', ''confirmed'', ''in_progress'', ''completed'', ''cancelled''}" for v
    by (cases v) (auto simp: validStatuses_def)
  have run: "snd (run_update db now fails bid us) \<noteq> Failure 400 ''Invalid status''" for us
    by (auto simp: run_update_def Let_def split: list.splits)
  have patch: "snd (update_booking_status db now fails bid (JStr s)) \<noteq>
                 Failure 400 ''Invalid status''" if "includes_status (JStr s)" for s
    using that
    by (simp add: update_booking_status_def Let_def del: includes_status.simps
        split: list.splits)
  show ?thesis
  proof (intro conjI impI)
    assume "st \<notin> JStr ` {''pending'', ''confirmed'', ''in_progress'', ''completed'', ''cancelled''}"
    then have "\<not> includes_status st" unfolding inc [of st] .
    then show "update_booking_status db now fails bid st = (db, Failure 400 ''Invalid status'')"
      by (simp add: update_booking_status_def del: includes_status.simps)
  next
    assume "u_status u \<noteq> JUndefined \<and>
      u_status u \<notin> JStr ` {''pending'', ''confirmed'', ''in_progress'', ''completed'', ''cancelled''}"
    then have "u_status u \<noteq> JUndefined" "\<not> includes_status (u_status u)"
      unfolding inc [of "u_status u"] by (rule conjunct1, rule conjunct2)
    then show "update_booking db now fails bid u = (db, Failure 400 ''Invalid status'')"
      by (cases "u_status u") (simp_all add: update_booking_def del: includes_status.simps)
  next
    assume a: "snd (update_booking_status db now fails bid st) = Failure 400 ''Invalid status''"
    have "\<not> includes_status st"
    proof
      assume i: "includes_status st"
      then obtain s where "st = JStr s" by (cases st) simp_all
      with i patch [of s] a show False by simp
    qed
    then show "st \<notin> JStr ` {''pending'', ''confirmed'', ''in_progress'', ''completed'', ''cancelled''}"
      unfolding inc [of st] .
  next
    assume a: "snd (update_booking db now fails bid u) = Failure 400 ''Invalid status''"
    have "\<not> includes_status (u_status u)"
    proof
      assume i: "includes_status (u_status u)"
      then obtain s where "u_status u = JStr s" by (cases "u_status u") simp_all
      with i a run show False
        by (simp add: update_booking_def del: includes_status.simps)
    qed
    then show "u_status u \<notin> JStr ` {''pending'', ''confirmed'', ''in_progress'', ''completed'', ''cancelled''}"
      unfolding inc [of "u_status u"] .
  qed
qed

text \<open>
  The theorem on the booking of the shop: \<open>done\<close>, a missing status, \<open>Pending\<close> and
  \<open>null\<close> are refused and nothing changes; \<open>confirmed\<close> is written, and so is a new
  name without a status.
\<close>

theorem invalid_status_rejected_witness:
  "update_booking_status shop 60 no_failure 7 (JStr ''done'') = (shop, Failure 400 ''Invalid status'') \<and>
   update_booking_status shop 60 no_failure 7 JUndefined = (shop, Failure 400 ''Invalid status'') \<and>
   update_booking shop 60 no_failure 7 (rename_only\<lparr>u_status := JStr ''Pending''\<rparr>) =
     (shop, Failure 400 ''Invalid status'') \<and>
   update_booking shop 60 no_failure 7 (rename_only\<lparr>u_status := JNull\<rparr>) =
     (shop, Failure 400 ''Invalid status'') \<and>
   map status (bookings (fst (update_booking_status shop 60 no_failure 7 (JStr ''confirmed'')))) =
     [''confirmed''] \<and>
   map customer_name (bookings (fst (update_booking shop 60 no_failure 7 rename_only))) =
     [''Ada L.'']"
proof -
  let ?S = "JStr ` {''pending'', ''confirmed'', ''in_progress'', ''completed'', ''cancelled''}"
  have n1: "JStr ''done'' \<notin> ?S" and n2: "JUndefined \<notin> ?S" and n3: "JStr ''Pending'' \<notin> ?S"
    and n4: "JNull \<notin> ?S"
    by auto
  have u3: "u_status (rename_only\<lparr>u_status := JStr ''Pending''\<rparr>) = JStr ''Pending''"
    and u4: "u_status (rename_only\<lparr>u_status := JNull\<rparr>) = JNull"
    by simp_all
  from invalid_status_rejected [of "JStr ''done''" shop 60 no_failure 7 rename_only] n1
  have a: "update_booking_status shop 60 no_failure 7 (JStr ''done'') =
             (shop, Failure 400 ''Invalid status'')" by blast
  from invalid_status_rejected [of JUndefined shop 60 no_failure 7 rename_only] n2
  have b: "update_booking_status shop 60 no_failure 7 JUndefined =
             (shop, Failure 400 ''Invalid status'')" by blast
  from invalid_status_rejected [of JNull shop 60 no_failure 7
      "rename_only\<lparr>u_status := JStr ''Pending''\<rparr>"] n3 u3
  have c: "update_booking shop 60 no_failure 7 (rename_only\<lparr>u_status := JStr ''Pending''\<rparr>) =
     (shop, Failure 400 ''Invalid status'')" by simp
  from invalid_status_rejected [of JNull shop 60 no_failure 7
      "rename_only\<lparr>u_status := JNull\<rparr>"] n4 u4
  have d: "update_booking shop 60 no_failure 7 (rename_only\<lparr>u_status := JNull\<rparr>) =
     (shop, Failure 400 ''Invalid status'')" by simp
  have e: "map status (bookings (fst (update_booking_status shop 60 no_failure 7 (JStr ''confirmed'')))) =
     [''confirmed'']"
    by code_simp
  have f: "map customer_name (bookings (fst (update_booking shop 60 no_failure 7 rename_only))) =
     [''Ada L.'']"
    by code_simp
  from a b c d e f show ?thesis by blast
qed

section \<open>Properties of the reviews handler\<close>

text \<open>
  C4, as the claim states it, fails when the query of the fallback throws as well: the
  cache holds a row of the place, older than the cache time; the Places API fails and
  then the query for the stale row fails; the answer is the 500 although a row exists.
\<close>

theorem stale_lookup_fails_with_row:
  "map place_id (google_reviews_cache reviewed) = [''place-1''] \<and>
   GOOGLE_PLACE_ID plain_env = Some ''place-1'' \<and>
   get_google_reviews reviewed plain_env 100000 (\<lambda>k. k = 3) None =
     (reviewed, True, Failure 500 ''Failed to fetch Google reviews'')"
  by code_simp

text \<open>\<open>getCachedOrFetch\<close> without a forced refresh, case by case.\<close>

lemma getCachedOrFetch_cases:
  "getCachedOrFetch db env now fails upstream p False =
     (if fails 0 then (db, False, None)
      else case filter (\<lambda>c. place_id c = p \<and> now - CACHE_HOURS env * 3600 < cached_at c)
                  (google_reviews_cache db) of
             c # _ \<Rightarrow> (db, False, Some (from_cache c False))
           | [] \<Rightarrow>
              (case upstream of
                 None \<Rightarrow> (db, True, None)
               | Some g \<Rightarrow>
                  if fails 2 then (db, True, None)
                  else (db\<lparr>google_reviews_cache :=
                             upsert_cache
                               \<lparr>place_id = p, overall_rating = rd_overall_rating (transformReviews g),
                                total_reviews = rd_total_reviews (transformReviews g),
                                reviews_json = transformReviews g, cached_at = now\<rparr>
                               (google_reviews_cache db)\<rparr>,
                        True,
                        Some \<lparr>rb_overall_rating = rd_overall_rating (transformReviews g),
                              rb_total_reviews = rd_total_reviews (transformReviews g),
                              rb_reviews = rd_reviews (transformReviews g),
                              rb_business_name = rd_business_name (transformReviews g),
                              rb_cached = False, rb_stale = False, rb_cached_at = now\<rparr>)))"
  by (simp add: getCachedOrFetch_def Let_def split: list.splits option.splits)

text \<open>
  C4, amended.  For a configured place:
  \<^item> when the cache query succeeds and finds a row of the place cached less than
    \<open>CACHE_HOURS\<close> ago, that row is returned with \<open>cached = true\<close>, the Places API is
    not called and nothing is written;
  \<^item> when it finds none, the Places API is called, and when that and the upsert
    succeed, the cache row of the place is upserted and the fresh data returned with
    \<open>cached = false\<close>;
  \<^item> when the cache query, the call or the upsert throws, nothing is written; the
    answer is the first row of the place, marked \<open>stale = true\<close>, when the query of the
    fallback succeeds and finds one, and the 500 when that query throws or finds no row.
\<close>

theorem reviews_cache_or_fetch:
  assumes "isConfigured env" and "GOOGLE_PLACE_ID env = Some p"
  shows
    "(\<not> fails 0 \<and>
      filter (\<lambda>c. place_id c = p \<and> now - CACHE_HOURS env * 3600 < cached_at c)
        (google_reviews_cache db) = c # cs \<longrightarrow>
        get_google_reviews db env now fails upstream =
          (db, False, Success 200 (Reviews (from_cache c False))) \<and>
        rb_cached (from_cache c False) \<and> \<not> rb_stale (from_cache c False)) \<and>
     (\<not> fails 0 \<and>
      filter (\<lambda>c. place_id c = p \<and> now - CACHE_HOURS env * 3600 < cached_at c)
        (google_reviews_cache db) = [] \<and> upstream = Some g \<and> \<not> fails 2 \<longrightarrow>
        (\<exists>body. get_google_reviews db env now fails upstream =
           (db\<lparr>google_reviews_cache :=
                 upsert_cache
                   \<lparr>place_id = p, overall_rating = rd_overall_rating (transformReviews g),
                    total_reviews = rd_total_reviews (transformReviews g),
                    reviews_json = transformReviews g, cached_at = now\<rparr>
                   (google_reviews_cache db)\<rparr>,
            True, Success 200 (Reviews body)) \<and>
           \<not> rb_cached body \<and> \<not> rb_stale body \<and>
           rb_reviews body = rd_reviews (transformReviews g))) \<and>
     ((fails 0 \<or>
       filter (\<lambda>c. place_id c = p \<and> now - CACHE_HOURS env * 3600 < cached_at c)
         (google_reviews_cache db) = [] \<and> (upstream = None \<or> fails 2)) \<longrightarrow>
        fst (get_google_reviews db env now fails upstream) = db \<and>
        fst (snd (get_google_reviews db env now fails upstream)) = (\<not> fails 0) \<and>
        (\<not> fails 3 \<and> filter (\<lambda>c. place_id c = p) (google_reviews_cache db) = s # ss \<longrightarrow>
           snd (snd (get_google_reviews db env now fails upstream)) =
             Success 200 (Reviews (from_cache s True)) \<and>
           rb_cached (from_cache s True) \<and> rb_stale (from_cache s True)) \<and>
        (fails 3 \<or> filter (\<lambda>c. place_id c = p) (google_reviews_cache db) = [] \<longrightarrow>
           snd (snd (get_google_reviews db env now fails upstream)) =
             Failure 500 ''Failed to fetch Google reviews''))"
proof (intro conjI impI)
  note defs = get_google_reviews_def getCachedOrFetch_cases assms
  {
    assume "\<not> fails 0 \<and>
      filter (\<lambda>c. place_id c = p \<and> now - CACHE_HOURS env * 3600 < cached_at c)
        (google_reviews_cache db) = c # cs"
    then show "get_google_reviews db env now fails upstream =
          (db, False, Success 200 (Reviews (from_cache c False)))"
      by (simp add: defs)
    show "rb_cached (from_cache c False)" "\<not> rb_stale (from_cache c False)"
      by (simp_all add: from_cache_def)
  }
  {
    assume "\<not> fails 0 \<and>
      filter (\<lambda>c. place_id c = p \<and> now - CACHE_HOURS env * 3600 < cached_at c)
        (google_reviews_cache db) = [] \<and> upstream = Some g \<and> \<not> fails 2"
    then show "\<exists>body. get_google_reviews db env now fails upstream =
           (db\<lparr>google_reviews_cache :=
                 upsert_cache
                   \<lparr>place_id = p, overall_rating = rd_overall_rating (transformReviews g),
                    total_reviews = rd_total_reviews (transformReviews g),
                    reviews_json = transformReviews g, cached_at = now\<rparr>
                   (google_reviews_cache db)\<rparr>,
            True, Success 200 (Reviews body)) \<and>
           \<not> rb_cached body \<and> \<not> rb_stale body \<and>
           rb_reviews body = rd_reviews (transformReviews g)"
      by (simp add: defs)
  }
  assume thrown: "fails 0 \<or>
       filter (\<lambda>c. place_id c = p \<and> now - CACHE_HOURS env * 3600 < cached_at c)
         (google_reviews_cache db) = [] \<and> (upstream = None \<or> fails 2)"
  then have got: "getCachedOrFetch db env now fails upstream p False = (db, \<not> fails 0, None)"
    by (auto simp: getCachedOrFetch_cases split: option.splits)
  show "fst (get_google_reviews db env now fails upstream) = db"
    and "fst (snd (get_google_reviews db env now fails upstream)) = (\<not> fails 0)"
    by (simp_all add: get_google_reviews_def assms got split: list.splits)
  {
    assume "\<not> fails 3 \<and> filter (\<lambda>c. place_id c = p) (google_reviews_cache db) = s # ss"
    then show "snd (snd (get_google_reviews db env now fails upstream)) =
             Success 200 (Reviews (from_cache s True))"
      by (simp add: get_google_reviews_def assms got)
    show "rb_cached (from_cache s True)" "rb_stale (from_cache s True)"
      by (simp_all add: from_cache_def)
  }
  assume "fails 3 \<or> filter (\<lambda>c. place_id c = p) (google_reviews_cache db) = []"
  then show "snd (snd (get_google_reviews db env now fails upstream)) =
             Failure 500 ''Failed to fetch Google reviews''"
    by (auto simp: get_google_reviews_def assms got)
qed

text \<open>
  The theorem on a cache row written at time 0, with the default of 24 hours: fresh at
  time 100; at time 100000 refreshed from the Places API, or returned stale when the
  API fails; and the 500 on an empty cache.
\<close>

theorem reviews_cache_or_fetch_witness:
  "isConfigured plain_env \<and> GOOGLE_PLACE_ID plain_env = Some ''place-1'' \<and>
   get_google_reviews reviewed plain_env 100 no_failure None =
     (reviewed, False, Success 200 (Reviews (from_cache old_row False))) \<and>
   map cached_at
     (google_reviews_cache
        (fst (get_google_reviews reviewed plain_env 100000 no_failure (Some google_says)))) =
     [100000] \<and>
   fst (snd (get_google_reviews reviewed plain_env 100000 no_failure (Some google_says))) \<and>
   get_google_reviews reviewed plain_env 100000 no_failure None =
     (reviewed, True, Success 200 (Reviews (from_cache old_row True))) \<and>
   get_google_reviews empty_db plain_env 100000 no_failure None =
     (empty_db, True, Failure 500 ''Failed to fetch Google reviews'')"
proof -
  have conf: "isConfigured plain_env" and pl: "GOOGLE_PLACE_ID plain_env = Some ''place-1''"
    by code_simp+
  have nf: "\<not> no_failure 0" "\<not> no_failure 2" "\<not> no_failure 3"
    by (simp_all add: no_failure_def)
  have fresh: "filter (\<lambda>c. place_id c = ''place-1'' \<and> 100 - CACHE_HOURS plain_env * 3600 < cached_at c)
        (google_reviews_cache reviewed) = [old_row]"
    by code_simp
  have stale: "filter (\<lambda>c. place_id c = ''place-1'' \<and> 100000 - CACHE_HOURS plain_env * 3600 < cached_at c)
        (google_reviews_cache reviewed) = []"
    by code_simp
  have anyrow: "filter (\<lambda>c. place_id c = ''place-1'') (google_reviews_cache reviewed) = [old_row]"
    by code_simp
  have norow: "filter (\<lambda>c. place_id c = ''place-1'') (google_reviews_cache empty_db) = []"
    "filter (\<lambda>c. place_id c = ''place-1'' \<and> 100000 - CACHE_HOURS plain_env * 3600 < cached_at c)
        (google_reviews_cache empty_db) = []"
    by code_simp+
  note rcf = reviews_cache_or_fetch [OF conf pl]
  from rcf [of no_failure 100 reviewed old_row "[]" None google_says old_row "[]"] nf fresh
  have a: "get_google_reviews reviewed plain_env 100 no_failure None =
     (reviewed, False, Success 200 (Reviews (from_cache old_row False)))"
    by simp
  from rcf [of no_failure 100000 reviewed old_row "[]" "Some google_says" google_says old_row "[]"]
    nf stale
  obtain body where "get_google_reviews reviewed plain_env 100000 no_failure (Some google_says) =
           (reviewed\<lparr>google_reviews_cache :=
                 upsert_cache
                   \<lparr>place_id = ''place-1'',
                    overall_rating = rd_overall_rating (transformReviews google_says),
                    total_reviews = rd_total_reviews (transformReviews google_says),
                    reviews_json = transformReviews google_says, cached_at = 100000\<rparr>
                   (google_reviews_cache reviewed)\<rparr>,
            True, Success 200 (Reviews body))"
    by auto
  then have b: "map cached_at
     (google_reviews_cache
        (fst (get_google_reviews reviewed plain_env 100000 no_failure (Some google_says)))) =
     [100000]"
    and b': "fst (snd (get_google_reviews reviewed plain_env 100000 no_failure (Some google_says)))"
    by (simp_all add: upsert_cache_def reviewed_def empty_db_def old_row_def)
  from rcf [of no_failure 100000 reviewed old_row "[]" None google_says old_row "[]"]
    nf stale anyrow
  have c: "get_google_reviews reviewed plain_env 100000 no_failure None =
     (reviewed, True, Success 200 (Reviews (from_cache old_row True)))"
    by (simp add: prod_eq_iff)
  from rcf [of no_failure 100000 empty_db old_row "[]" None google_says old_row "[]"]
    nf norow
  have d: "get_google_reviews empty_db plain_env 100000 no_failure None =
     (empty_db, True, Failure 500 ''Failed to fetch Google reviews'')"
    by (simp add: prod_eq_iff)
  from conf pl a b b' c d show ?thesis by simp
qed

section \<open>Properties of the authentication handlers\<close>


subsection \<open>What login stores, what refresh finds\<close>









end
